theory Spec2Isabelle
  imports Main "HOL-Library.Word" "HOL-Library.Multiset"
begin

unbundle bit_operations_syntax

section \<open>Shared state of the Atlas renderer (src/renderer/atlas/common.h)\<close>

text \<open>
  A shallow embedding of the data structures of \<^verbatim>\<open>common.h\<close>: the plain
  geometry structs, the fixed-size \<^verbatim>\<open>Buffer\<close>, the generation-tracked settings,
  the reference-counted \<^verbatim>\<open>FontFace\<close> handle with its soft-font sentinel, the
  \<^verbatim>\<open>ShapedRow\<close> and the \<^verbatim>\<open>RenderingPayload\<close>. All definitions come first,
  the theorems about them follow in the second half of the theory.
\<close>

subsection \<open>Fixed-width integers\<close>

type_synonym u8 = "8 word"
type_synonym u16 = "16 word"
type_synonym i16 = "16 word"
type_synonym u32 = "32 word"
type_synonym i32 = "32 word"

text \<open>
  The comparisons \<^verbatim>\<open><\<close> and \<^verbatim>\<open>>=\<close> of the integer types. Both unsigned and
  signed numbers of a width are words of that width; the unsigned types compare the words
  as they are, the signed types compare their two's-complement readings.
\<close>

definition unsigned_less :: "('w::len) word \<Rightarrow> 'w word \<Rightarrow> bool" where
  "unsigned_less a b = (a < b)"

definition unsigned_ge :: "('w::len) word \<Rightarrow> 'w word \<Rightarrow> bool" where
  "unsigned_ge a b = (a \<ge> b)"

definition signed_less :: "('w::len) word \<Rightarrow> 'w word \<Rightarrow> bool" where
  "signed_less a b = (sint a < sint b)"

definition signed_ge :: "('w::len) word \<Rightarrow> 'w word \<Rightarrow> bool" where
  "signed_ge a b = (sint a \<ge> sint b)"

text \<open>
  A \<^verbatim>\<open>float\<close> is carried as its 32-bit IEEE-754 pattern: the sign in bit 31, the
  exponent in bits 30 to 23, the fraction in bits 22 to 0 (\<open>0.0f\<close> is the pattern 0,
  \<open>1.0f\<close> is \<open>0x3F800000\<close>). The header stores and clears floats, and
  \<^verbatim>\<open>rect<f32>\<close> compares them; it does no other arithmetic on them.
\<close>

type_synonym f32 = "32 word"

text \<open>
  A pattern is a NaN when its exponent is all ones and its fraction is not zero. Every
  other pattern is a number, and numbers are ordered by sign and magnitude: the magnitude
  patterns of the non-negative floats (zero, the denormals, the normals, infinity) grow
  with their value, and a set sign bit negates; \<open>+0\<close> and \<open>-0\<close> both read 0.
\<close>

definition f32_is_nan :: "f32 \<Rightarrow> bool" where
  "f32_is_nan w = ((w AND 0x7F800000) = 0x7F800000 \<and> (w AND 0x007FFFFF) \<noteq> 0)"

definition f32_key :: "f32 \<Rightarrow> int" where
  "f32_key w =
     (if (w AND 0x80000000) \<noteq> 0 then - uint (w AND 0x7FFFFFFF) else uint (w AND 0x7FFFFFFF))"

text \<open>
  The comparisons \<^verbatim>\<open><\<close> and \<^verbatim>\<open>>=\<close> of \<^verbatim>\<open>float\<close>: false as soon as one
  operand is a NaN, the order of the numbers otherwise.
\<close>

definition f32_less :: "f32 \<Rightarrow> f32 \<Rightarrow> bool" where
  "f32_less a b = (\<not> f32_is_nan a \<and> \<not> f32_is_nan b \<and> f32_key a < f32_key b)"

definition f32_ge :: "f32 \<Rightarrow> f32 \<Rightarrow> bool" where
  "f32_ge a b = (\<not> f32_is_nan a \<and> \<not> f32_is_nan b \<and> f32_key a \<ge> f32_key b)"

text \<open>
  Addresses of the 64-bit target. Pointer comparison is the unsigned comparison of
  addresses, which is the order of \<^typ>\<open>64 word\<close>.
\<close>

type_synonym addr = "64 word"

definition nullptr :: addr where
  "nullptr = 0"

subsection \<open>vec2 and rect\<close>

text \<open>
  \<^verbatim>\<open>template<typename T> struct vec2 { T x{}; T y{}; }\<close>. The fields are written
  \<open>vec_x\<close> and \<open>vec_y\<close>, so that \<open>x\<close> and \<open>y\<close> stay free for variables.
\<close>

record 'a vec2 =
  vec_x :: 'a
  vec_y :: 'a

type_synonym u16x2 = "u16 vec2"

text \<open>
  \<^verbatim>\<open>template<typename T> struct rect { T left{}, top{}, right{}, bottom{}; }\<close>.
  The field \<^verbatim>\<open>top\<close> is written \<open>top'\<close>, since \<open>top\<close> is the greatest element
  of a lattice in HOL.
\<close>

record 'a rect =
  left :: 'a
  top' :: 'a
  right :: 'a
  bottom :: 'a

text \<open>
  The two member functions of the template use the comparison of the element type
  \<^verbatim>\<open>T\<close>, which is their first argument here: \<open>unsigned_ge\<close> and
  \<open>unsigned_less\<close> for \<^verbatim>\<open>u16r\<close> and \<^verbatim>\<open>u32r\<close>, \<open>signed_ge\<close> and
  \<open>signed_less\<close> for \<^verbatim>\<open>i16r\<close> and \<^verbatim>\<open>i32r\<close>, \<open>f32_ge\<close> and
  \<open>f32_less\<close> for \<^verbatim>\<open>f32r\<close>.

  \<^verbatim>\<open>return (left >= right) || (top >= bottom);\<close>
\<close>

definition rect_empty :: "('a \<Rightarrow> 'a \<Rightarrow> bool) \<Rightarrow> 'a rect \<Rightarrow> bool" where
  "rect_empty ge r = (ge (left r) (right r) \<or> ge (top' r) (bottom r))"

text \<open>\<^verbatim>\<open>return (left < right) && (top < bottom);\<close>\<close>

definition rect_non_empty :: "('a \<Rightarrow> 'a \<Rightarrow> bool) \<Rightarrow> 'a rect \<Rightarrow> bool" where
  "rect_non_empty lt r = (lt (left r) (right r) \<and> lt (top' r) (bottom r))"

text \<open>
  No field of a float rectangle is a NaN.
\<close>

definition rect_no_nan :: "f32 rect \<Rightarrow> bool" where
  "rect_no_nan r =
     (\<not> f32_is_nan (left r) \<and> \<not> f32_is_nan (top' r)
      \<and> \<not> f32_is_nan (right r) \<and> \<not> f32_is_nan (bottom r))"

text \<open>
  A rectangle of signed coordinates (\<^verbatim>\<open>til::rect\<close>, \<^verbatim>\<open>i32r\<close>) with its fields
  read as two's-complement numbers.
\<close>

definition rect_sint :: "('w::len) word rect \<Rightarrow> int rect" where
  "rect_sint r = \<lparr>left = sint (left r), top' = sint (top' r),
                  right = sint (right r), bottom = sint (bottom r)\<rparr>"

subsection \<open>FontFace: a COM smart pointer with a soft-font sentinel\<close>

text \<open>
  \<^verbatim>\<open>#define IDWriteFontFace_SoftFont (static_cast<IDWriteFontFace*>(nullptr) + 1)\<close>:
  the address one object past the null pointer. \<^verbatim>\<open>IDWriteFontFace\<close> is declared by
  the platform SDK; an interface object consists of its vtable pointer, 8 bytes on the
  64-bit target. No proof below depends on that number.
\<close>

definition sizeof_IDWriteFontFace :: addr where
  "sizeof_IDWriteFontFace = 8"

definition IDWriteFontFace_SoftFont :: addr where
  "IDWriteFontFace_SoftFont = nullptr + 1 * sizeof_IDWriteFontFace"

text \<open>
  The calls a handle makes on the COM object it points to, with the pointer they are made
  through. The state of the program is the \<^verbatim>\<open>_ptr\<close> member of every
  \<^verbatim>\<open>FontFace\<close> object (objects are named by natural numbers, so that two arguments
  of an operation may be the same object) and the calls issued so far, oldest first.
\<close>

datatype com_call = AddRef addr | Release addr

fun call_target :: "com_call \<Rightarrow> addr" where
  "call_target (AddRef p) = p"
| "call_target (Release p) = p"

record com_state =
  faces :: "nat \<Rightarrow> addr"
  calls :: "com_call list"

text \<open>\<^verbatim>\<open>IDWriteFontFace* get() const noexcept { return _ptr; }\<close>\<close>

definition get :: "com_state \<Rightarrow> nat \<Rightarrow> addr" where
  "get s this = faces s this"

text \<open>\<^verbatim>\<open>return _ptr > IDWriteFontFace_SoftFont;\<close>\<close>

definition is_proper_font :: "com_state \<Rightarrow> nat \<Rightarrow> bool" where
  "is_proper_font s this = (faces s this > IDWriteFontFace_SoftFont)"

text \<open>\<^verbatim>\<open>if (is_proper_font()) { _ptr->AddRef(); }\<close>\<close>

definition addRef' :: "com_state \<Rightarrow> nat \<Rightarrow> com_state" where
  "addRef' s this =
     (if is_proper_font s this then s\<lparr>calls := calls s @ [AddRef (faces s this)]\<rparr> else s)"

text \<open>\<^verbatim>\<open>if (is_proper_font()) { _ptr->Release(); }\<close>\<close>

definition release' :: "com_state \<Rightarrow> nat \<Rightarrow> com_state" where
  "release' s this =
     (if is_proper_font s this then s\<lparr>calls := calls s @ [Release (faces s this)]\<rparr> else s)"

text \<open>The assignment \<^verbatim>\<open>_ptr = p\<close> of the object \<open>this\<close>.\<close>

definition set_ptr :: "com_state \<Rightarrow> nat \<Rightarrow> addr \<Rightarrow> com_state" where
  "set_ptr s this p = s\<lparr>faces := (faces s)(this := p)\<rparr>"

text \<open>\<^verbatim>\<open>const auto tmp = _ptr; _ptr = nullptr; return tmp;\<close>\<close>

definition detach :: "com_state \<Rightarrow> nat \<Rightarrow> addr \<times> com_state" where
  "detach s this = (let tmp = faces s this in (tmp, set_ptr s this nullptr))"

text \<open>\<^verbatim>\<open>_release(); _ptr = other;\<close>\<close>

definition attach :: "com_state \<Rightarrow> nat \<Rightarrow> addr \<Rightarrow> com_state" where
  "attach s this other = set_ptr (release' s this) this other"

text \<open>\<^verbatim>\<open>FontFace() = default;\<close> with \<^verbatim>\<open>IDWriteFontFace* _ptr = nullptr;\<close>\<close>

definition FontFace_default :: "com_state \<Rightarrow> nat \<Rightarrow> com_state" where
  "FontFace_default s this = set_ptr s this nullptr"

text \<open>\<^verbatim>\<open>FontFace(IDWriteFontFace* ptr) noexcept : _ptr{ ptr } { _addRef(); }\<close>\<close>

definition FontFace_from_ptr :: "com_state \<Rightarrow> nat \<Rightarrow> addr \<Rightarrow> com_state" where
  "FontFace_from_ptr s this p = addRef' (set_ptr s this p) this"

text \<open>\<^verbatim>\<open>FontFace(const FontFace& other) noexcept : FontFace{ other.get() } {}\<close>\<close>

definition FontFace_copy :: "com_state \<Rightarrow> nat \<Rightarrow> nat \<Rightarrow> com_state" where
  "FontFace_copy s this other = FontFace_from_ptr s this (get s other)"

text \<open>\<^verbatim>\<open>FontFace(FontFace&& other) noexcept : _ptr{ other.detach() } {}\<close>\<close>

definition FontFace_move :: "com_state \<Rightarrow> nat \<Rightarrow> nat \<Rightarrow> com_state" where
  "FontFace_move s this other = (let (p, s1) = detach s other in set_ptr s1 this p)"

text \<open>
  \<^verbatim>\<open>FontFace(const wil::com_ptr<IDWriteFontFace>& other)\<close> delegates to the
  constructor from \<^verbatim>\<open>other.get()\<close>; \<^verbatim>\<open>FontFace(wil::com_ptr<IDWriteFontFace>&& other)\<close>
  takes \<^verbatim>\<open>other.detach()\<close> and makes no call. The \<^verbatim>\<open>com_ptr\<close> is not an
  object of this state; the argument is the raw pointer it held.
\<close>

definition FontFace_from_com_ptr :: "com_state \<Rightarrow> nat \<Rightarrow> addr \<Rightarrow> com_state" where
  "FontFace_from_com_ptr s this p = FontFace_from_ptr s this p"

definition FontFace_from_com_ptr_moved :: "com_state \<Rightarrow> nat \<Rightarrow> addr \<Rightarrow> com_state" where
  "FontFace_from_com_ptr_moved s this p = set_ptr s this p"

text \<open>\<^verbatim>\<open>_release(); _ptr = other.get(); _addRef(); return *this;\<close>\<close>

definition FontFace_copy_assign :: "com_state \<Rightarrow> nat \<Rightarrow> nat \<Rightarrow> com_state" where
  "FontFace_copy_assign s this other =
     (let s1 = release' s this;
          s2 = set_ptr s1 this (get s1 other)
      in addRef' s2 this)"

text \<open>\<^verbatim>\<open>_release(); _ptr = other.detach(); return *this;\<close>\<close>

definition FontFace_move_assign :: "com_state \<Rightarrow> nat \<Rightarrow> nat \<Rightarrow> com_state" where
  "FontFace_move_assign s this other =
     (let s1 = release' s this;
          (p, s2) = detach s1 other
      in set_ptr s2 this p)"

text \<open>\<^verbatim>\<open>~FontFace() noexcept { _release(); }\<close>\<close>

definition FontFace_dtor :: "com_state \<Rightarrow> nat \<Rightarrow> com_state" where
  "FontFace_dtor s this = release' s this"

text \<open>
  A program fragment is a list of operations on handles; \<open>run\<close> performs them in order.
\<close>

datatype FontFace_op =
    Default nat
  | FromPtr nat addr
  | FromComPtr nat addr
  | FromComPtrMoved nat addr
  | Copy nat nat
  | Move nat nat
  | CopyAssign nat nat
  | MoveAssign nat nat
  | Attach nat addr
  | Detach nat
  | Dtor nat

fun exec :: "com_state \<Rightarrow> FontFace_op \<Rightarrow> com_state" where
  "exec s (Default t) = FontFace_default s t"
| "exec s (FromPtr t p) = FontFace_from_ptr s t p"
| "exec s (FromComPtr t p) = FontFace_from_com_ptr s t p"
| "exec s (FromComPtrMoved t p) = FontFace_from_com_ptr_moved s t p"
| "exec s (Copy t other) = FontFace_copy s t other"
| "exec s (Move t other) = FontFace_move s t other"
| "exec s (CopyAssign t other) = FontFace_copy_assign s t other"
| "exec s (MoveAssign t other) = FontFace_move_assign s t other"
| "exec s (Attach t p) = attach s t p"
| "exec s (Detach t) = snd (detach s t)"
| "exec s (Dtor t) = FontFace_dtor s t"

definition run :: "com_state \<Rightarrow> FontFace_op list \<Rightarrow> com_state" where
  "run s ops = foldl exec s ops"

text \<open>The pointers a fragment hands to a constructor or to \<^verbatim>\<open>attach\<close>.\<close>

fun op_ptrs :: "FontFace_op \<Rightarrow> addr list" where
  "op_ptrs (FromPtr t p) = [p]"
| "op_ptrs (FromComPtr t p) = [p]"
| "op_ptrs (FromComPtrMoved t p) = [p]"
| "op_ptrs (Attach t p) = [p]"
| "op_ptrs _ = []"

text \<open>Null or the sentinel, the two values that are not a COM object.\<close>

definition null_or_soft :: "addr \<Rightarrow> bool" where
  "null_or_soft p = (p = nullptr \<or> p = IDWriteFontFace_SoftFont)"

subsection \<open>Pointers to elements and the Buffer object\<close>

text \<open>
  A \<^verbatim>\<open>T*\<close> that points into an array is the address of the array's storage and an
  element offset; \<^verbatim>\<open>p + n\<close> moves the offset. The null pointer is the null address
  at offset 0.
\<close>

record ptr =
  base :: addr
  off :: nat

definition null_ptr :: ptr where
  "null_ptr = \<lparr>base = nullptr, off = 0\<rparr>"

definition ptr_add :: "ptr \<Rightarrow> nat \<Rightarrow> ptr" where
  "ptr_add p n = p\<lparr>off := off p + n\<rparr>"

type_synonym size_t = "64 word"

text \<open>
  \<^verbatim>\<open>T* _data = nullptr; size_t _size = 0;\<close> The two members of a \<^verbatim>\<open>Buffer\<close>;
  the elements live in the heap (see the Buffer section below).
\<close>

record Buffer =
  buf_data :: ptr
  buf_size :: size_t

text \<open>\<^verbatim>\<open>constexpr Buffer() noexcept = default;\<close>\<close>

definition Buffer_empty :: Buffer where
  "Buffer_empty = \<lparr>buf_data = null_ptr, buf_size = 0\<rparr>"

subsection \<open>Generation-tracked settings\<close>

text \<open>
  Modelled from the spec: \<^verbatim>\<open>til::generation_t\<close> and \<^verbatim>\<open>til::generational<T>\<close>
  are declared in \<^verbatim>\<open>til/generational.h\<close>, which is not part of this header. The spec
  describes them as a value paired with a generation number that is given at
  construction, read without being changed, and incremented exactly when the value is
  mutated; consumers remember the generation they saw last and compare, equality meaning
  no change. The counter is an unsigned 32-bit number.
\<close>

type_synonym generation_t = u32

record 'a generational =
  generation :: generation_t
  inner :: 'a

text \<open>
  Modelled from the spec: the constructor \<^verbatim>\<open>generational<T>{ generation_t{ g }, args... }\<close>
  stores the generation \<open>g\<close> and builds the value from the remaining arguments.
\<close>

definition generational_init :: "generation_t \<Rightarrow> 'a \<Rightarrow> 'a generational" where
  "generational_init g v = \<lparr>generation = g, inner = v\<rparr>"

text \<open>
  Modelled from the spec: a consumer that saw generation \<open>seen\<close> last treats the value
  as changed when the current generation differs from it.
\<close>

definition generation_changed :: "generation_t \<Rightarrow> 'a generational \<Rightarrow> bool" where
  "generation_changed seen g = (generation g \<noteq> seen)"

record TargetSettings =
  hwnd :: addr
  enableTransparentBackground :: bool
  useSoftwareRendering :: bool

definition TargetSettings_default :: TargetSettings where
  "TargetSettings_default =
     \<lparr>hwnd = nullptr, enableTransparentBackground = False, useSoftwareRendering = False\<rparr>"

text \<open>
  \<^verbatim>\<open>inline constexpr auto DefaultAntialiasingMode = D2D1_TEXT_ANTIALIAS_MODE_CLEARTYPE;\<close>
  The enumerator is the SDK's; its number is 1.
\<close>

definition DefaultAntialiasingMode :: u8 where
  "DefaultAntialiasingMode = 1"

text \<open>The SDK's \<^verbatim>\<open>DWRITE_FONT_FEATURE\<close> and \<^verbatim>\<open>DWRITE_FONT_AXIS_VALUE\<close>.\<close>

record DWRITE_FONT_FEATURE =
  nameTag :: u32
  parameter :: u32

record DWRITE_FONT_AXIS_VALUE =
  axisTag :: u32
  axisValue :: f32

text \<open>\<^verbatim>\<open>til::size\<close>: a width and a height of type \<^verbatim>\<open>til::CoordType\<close>.\<close>

record til_size =
  width :: i32
  height :: i32

record FontSettings =
  fontCollection :: addr
  fontFamily :: addr
  fontName :: "u16 list"
  fontFeatures :: "DWRITE_FONT_FEATURE list"
  fontAxisValues :: "DWRITE_FONT_AXIS_VALUE list"
  fontSize :: f32
  advanceScale :: f32
  cellSize :: u16x2
  fontWeight :: u16
  baseline :: u16
  descender :: u16
  underlinePos :: u16
  underlineWidth :: u16
  strikethroughPos :: u16
  strikethroughWidth :: u16
  doubleUnderlinePos :: u16x2
  thinLineWidth :: u16
  dpi :: u16
  antialiasingMode :: u8
  softFontPattern :: "u16 list"
  softFontCellSize :: til_size
  softFontCenteringHint :: size_t

definition FontSettings_default :: FontSettings where
  "FontSettings_default =
     \<lparr>fontCollection = nullptr, fontFamily = nullptr, fontName = [], fontFeatures = [],
      fontAxisValues = [], fontSize = 0, advanceScale = 0, cellSize = \<lparr>vec_x = 0, vec_y = 0\<rparr>,
      fontWeight = 0, baseline = 0, descender = 0, underlinePos = 0, underlineWidth = 0,
      strikethroughPos = 0, strikethroughWidth = 0, doubleUnderlinePos = \<lparr>vec_x = 0, vec_y = 0\<rparr>,
      thinLineWidth = 0, dpi = 96, antialiasingMode = DefaultAntialiasingMode,
      softFontPattern = [], softFontCellSize = \<lparr>width = 0, height = 0\<rparr>,
      softFontCenteringHint = 0\<rparr>"

record CursorSettings =
  cursorColor :: u32
  cursorType :: u16
  heightPercentage :: u16

definition CursorSettings_default :: CursorSettings where
  "CursorSettings_default = \<lparr>cursorColor = 0xffffffff, cursorType = 0, heightPercentage = 20\<rparr>"

record MiscellaneousSettings =
  backgroundColor :: u32
  selectionColor :: u32
  customPixelShaderPath :: "u16 list"
  useRetroTerminalEffect :: bool

definition MiscellaneousSettings_default :: MiscellaneousSettings where
  "MiscellaneousSettings_default =
     \<lparr>backgroundColor = 0, selectionColor = 0x7fffffff, customPixelShaderPath = [],
      useRetroTerminalEffect = False\<rparr>"

record Settings =
  target :: "TargetSettings generational"
  font :: "FontSettings generational"
  cursor :: "CursorSettings generational"
  misc :: "MiscellaneousSettings generational"
  targetSize :: u16x2
  cellCount :: u16x2

type_synonym GenerationalSettings = "Settings generational"

text \<open>
  \<^verbatim>\<open>return GenerationalSettings{ til::generation_t{ 1 },
    til::generational<TargetSettings>{ til::generation_t{ 1 } }, ... };\<close>
  The outer generation is 1; the four groups are built with generation 1 around their
  default values; \<^verbatim>\<open>targetSize\<close> and \<^verbatim>\<open>cellCount\<close> are given no initialiser
  and are zero.
\<close>

definition DirtyGenerationalSettings :: GenerationalSettings where
  "DirtyGenerationalSettings =
     generational_init 1
       \<lparr>target = generational_init 1 TargetSettings_default,
        font = generational_init 1 FontSettings_default,
        cursor = generational_init 1 CursorSettings_default,
        misc = generational_init 1 MiscellaneousSettings_default,
        targetSize = \<lparr>vec_x = 0, vec_y = 0\<rparr>,
        cellCount = \<lparr>vec_x = 0, vec_y = 0\<rparr>\<rparr>"

subsection \<open>ShapedRow\<close>

text \<open>
  A \<^verbatim>\<open>FontFace\<close> stored by value in a row is the pointer it holds. The set of grid
  lines (\<^verbatim>\<open>GridLineSet\<close>, a bit set declared elsewhere) is kept as its bits. The fields
  \<^verbatim>\<open>from\<close> and \<^verbatim>\<open>to\<close> are written \<open>from'\<close> and \<open>to'\<close>.
\<close>

record FontMapping =
  fontFace :: addr
  fontEmSize :: f32
  glyphsFrom :: u32
  glyphsTo :: u32

type_synonym GridLineSet = u32

record GridLineRange =
  lines :: GridLineSet
  color :: u32
  from' :: u16
  to' :: u16

text \<open>The SDK's \<^verbatim>\<open>DWRITE_GLYPH_OFFSET\<close>.\<close>

record DWRITE_GLYPH_OFFSET =
  advanceOffset :: f32
  ascenderOffset :: f32

text \<open>
  \<^verbatim>\<open>LineRendition\<close> is declared with the text buffer: single width, double width,
  and the top and bottom halves of double height.
\<close>

datatype LineRendition = SingleWidth | DoubleWidth | DoubleHeightTop | DoubleHeightBottom

text \<open>\<^verbatim>\<open>til::CoordType\<close> is a signed 32-bit integer.\<close>

type_synonym CoordType = i32

record ShapedRow =
  mappings :: "FontMapping list"
  glyphIndices :: "u16 list"
  glyphAdvances :: "f32 list"
  glyphOffsets :: "DWRITE_GLYPH_OFFSET list"
  colors :: "u32 list"
  gridLineRanges :: "GridLineRange list"
  lineRendition :: LineRendition
  selectionFrom :: u16
  selectionTo :: u16
  dirtyTop :: CoordType
  dirtyBottom :: CoordType

text \<open>The default member initialisers of \<^verbatim>\<open>ShapedRow\<close>.\<close>

definition ShapedRow_default :: ShapedRow where
  "ShapedRow_default =
     \<lparr>mappings = [], glyphIndices = [], glyphAdvances = [], glyphOffsets = [], colors = [],
      gridLineRanges = [], lineRendition = SingleWidth, selectionFrom = 0, selectionTo = 0,
      dirtyTop = 0, dirtyBottom = 0\<rparr>"

text \<open>
  \<^verbatim>\<open>void clear(u16 y, u16 cellHeight) noexcept\<close>. In \<^verbatim>\<open>y * cellHeight\<close> both
  operands are promoted to \<^verbatim>\<open>int\<close>, 32 bits wide on the target, and the product is
  taken there; \<^verbatim>\<open>dirtyTop + cellHeight\<close> is a sum of 32-bit signed numbers. Both
  are two's-complement operations on \<^typ>\<open>32 word\<close>, read back with \<^const>\<open>sint\<close>.
  C++ leaves a signed overflow undefined; the target's instructions wrap, and whatever a
  program does there, a 32-bit \<^verbatim>\<open>dirtyTop\<close> cannot hold a product of
  \<open>2\<^sup>3\<^sup>1\<close> or more.
\<close>

definition ShapedRow_clear :: "ShapedRow \<Rightarrow> u16 \<Rightarrow> u16 \<Rightarrow> ShapedRow" where
  "ShapedRow_clear r y cellHeight =
     (let r1 = r\<lparr>mappings := []\<rparr>;
          r2 = r1\<lparr>glyphIndices := []\<rparr>;
          r3 = r2\<lparr>glyphAdvances := []\<rparr>;
          r4 = r3\<lparr>glyphOffsets := []\<rparr>;
          r5 = r4\<lparr>colors := []\<rparr>;
          r6 = r5\<lparr>gridLineRanges := []\<rparr>;
          r7 = r6\<lparr>lineRendition := SingleWidth\<rparr>;
          r8 = r7\<lparr>selectionFrom := 0\<rparr>;
          r9 = r8\<lparr>selectionTo := 0\<rparr>;
          r10 = r9\<lparr>dirtyTop := (ucast y :: i32) * (ucast cellHeight :: i32)\<rparr>
      in r10\<lparr>dirtyBottom := dirtyTop r10 + (ucast cellHeight :: i32)\<rparr>)"

subsection \<open>RenderingPayload\<close>

text \<open>
  The frame state handed to a backend. The handles to the collaborators (the Direct2D,
  DirectWrite and DXGI interface pointers and the two callbacks) are set once and never
  touched by this header; they are left out of the record. The member \<^verbatim>\<open>s\<close> is
  written \<open>settings\<close>.
\<close>

record RenderingPayload =
  settings :: GenerationalSettings
  unorderedRows :: Buffer
  rowsScratch :: Buffer
  rows :: Buffer
  backgroundBitmapStride :: size_t
  backgroundBitmap :: Buffer
  backgroundBitmapGeneration :: generation_t
  cursorRect :: "u16 rect"
  dirtyRectInPx :: "CoordType rect"
  invalidatedRows :: u16x2
  scrollOffset :: i16

text \<open>
  A payload as its default member initialisers leave it. The settings are
  default-constructed by \<^verbatim>\<open>til::generational\<close>, outside this header, and are taken
  as given.
\<close>

definition RenderingPayload_default :: "GenerationalSettings \<Rightarrow> RenderingPayload" where
  "RenderingPayload_default s0 =
     \<lparr>settings = s0, unorderedRows = Buffer_empty, rowsScratch = Buffer_empty, rows = Buffer_empty,
      backgroundBitmapStride = 0, backgroundBitmap = Buffer_empty,
      backgroundBitmapGeneration = 1,
      cursorRect = \<lparr>left = 0, top' = 0, right = 0, bottom = 0\<rparr>,
      dirtyRectInPx = \<lparr>left = 0, top' = 0, right = 0, bottom = 0\<rparr>,
      invalidatedRows = \<lparr>vec_x = 0, vec_y = 0\<rparr>, scrollOffset = 0\<rparr>"

text \<open>
  \<^verbatim>\<open>dirtyRectInPx = { 0, 0, s->targetSize.x, s->targetSize.y };
  invalidatedRows = { 0, s->cellCount.y }; scrollOffset = 0;\<close>
  Reading through \<^verbatim>\<open>s->\<close> leaves the generation as it is; the 16-bit sizes widen
  to \<^verbatim>\<open>til::CoordType\<close>.
\<close>

definition MarkAllAsDirty :: "RenderingPayload \<Rightarrow> RenderingPayload" where
  "MarkAllAsDirty p =
     (let p1 = p\<lparr>dirtyRectInPx :=
                   \<lparr>left = 0, top' = 0,
                    right = ucast (vec_x (targetSize (inner (settings p)))),
                    bottom = ucast (vec_y (targetSize (inner (settings p))))\<rparr>\<rparr>;
          p2 = p1\<lparr>invalidatedRows :=
                   \<lparr>vec_x = 0, vec_y = vec_y (cellCount (inner (settings p1)))\<rparr>\<rparr>
      in p2\<lparr>scrollOffset := 0\<rparr>)"

text \<open>
  A payload in use, for the examples: target size (800, 600), cell count (100, 40), a
  pending scroll of 3 rows, rows 5 to 7 invalidated and a small dirty rectangle.
\<close>

definition example_payload :: RenderingPayload where
  "example_payload =
     (RenderingPayload_default
        (DirtyGenerationalSettings
           \<lparr>inner := (inner DirtyGenerationalSettings)
              \<lparr>targetSize := \<lparr>vec_x = 800, vec_y = 600\<rparr>,
               cellCount := \<lparr>vec_x = 100, vec_y = 40\<rparr>\<rparr>\<rparr>))
       \<lparr>dirtyRectInPx := \<lparr>left = 8, top' = 16, right = 24, bottom = 32\<rparr>,
        invalidatedRows := \<lparr>vec_x = 5, vec_y = 7\<rparr>,
        scrollOffset := 3\<rparr>"

subsection \<open>Buffer: storage, construction, move and destruction\<close>

text \<open>
  The heap holds the storage blocks obtained from \<^verbatim>\<open>::operator new\<close>, by address.
  A block is a row of cells of the element type; a cell is \<open>Some v\<close> when an object
  \<open>v\<close> lives there and \<open>None\<close> when it is raw (or indeterminate) storage. The state
  of a program is the heap, the two members of every \<^verbatim>\<open>Buffer\<close> object (objects are
  named by natural numbers, so that both arguments of an assignment may be the same
  object) and the elements whose destructor has run, oldest first.

  What C++ leaves undefined (a read or write outside a block, freeing what was not
  allocated) is the error \<open>undefined_behaviour\<close>; an allocation that cannot be
  satisfied is \<open>bad_alloc\<close>, the exception \<^verbatim>\<open>::operator new\<close> throws.
\<close>

datatype error = bad_alloc | undefined_behaviour

type_synonym 'a heap = "addr \<Rightarrow> 'a option list option"

record 'a world =
  heap :: "'a heap"
  bufs :: "nat \<Rightarrow> Buffer"
  destroyed :: "'a list"

text \<open>
  \<^verbatim>\<open>::operator new(nbytes)\<close> belongs to the C++ runtime. Its answer is an argument:
  \<open>None\<close> when memory cannot be obtained, otherwise the address of the new storage,
  which has room for \<open>nbytes div sizeof(T)\<close> elements. The runtime never answers with
  the null address nor with storage that is still in use (\<open>new_contract\<close>).
\<close>

definition operator_new ::
  "'a heap \<Rightarrow> addr option \<Rightarrow> size_t \<Rightarrow> size_t \<Rightarrow> error + (ptr \<times> 'a heap)" where
  "operator_new h reply nbytes sizeof_T =
     (case reply of
        None \<Rightarrow> Inl bad_alloc
      | Some a \<Rightarrow>
          Inr (\<lparr>base = a, off = 0\<rparr>,
               h(a \<mapsto> replicate (unat nbytes div unat sizeof_T) None)))"

definition new_contract :: "'a heap \<Rightarrow> addr option \<Rightarrow> bool" where
  "new_contract h reply =
     (case reply of None \<Rightarrow> True | Some a \<Rightarrow> a \<noteq> nullptr \<and> h a = None)"

text \<open>
  \<^verbatim>\<open>if (!size) { return nullptr; } return static_cast<T*>(::operator new(size * sizeof(T)));\<close>
  The product is taken in \<^verbatim>\<open>size_t\<close> and wraps; the argument \<^verbatim>\<open>size\<close> is
  written \<open>sz\<close>. The two branches on the alignment
  differ in the alignment they ask for, not in the size.
\<close>

definition allocate ::
  "size_t \<Rightarrow> 'a heap \<Rightarrow> addr option \<Rightarrow> size_t \<Rightarrow> error + (ptr \<times> 'a heap)" where
  "allocate sizeof_T h reply sz =
     (if sz = 0 then Inr (null_ptr, h)
      else operator_new h reply (sz * sizeof_T) sizeof_T)"

text \<open>
  \<^verbatim>\<open>::operator delete(data)\<close>: nothing for the null pointer, the end of the block for
  a pointer that \<^verbatim>\<open>::operator new\<close> returned, undefined otherwise.
\<close>

definition deallocate :: "'a heap \<Rightarrow> ptr \<Rightarrow> error + 'a heap" where
  "deallocate h p =
     (if p = null_ptr then Inr h
      else if off p = 0 \<and> h (base p) \<noteq> None then Inr (h(base p := None))
      else Inl undefined_behaviour)"

text \<open>Reading the cell a pointer points to; \<open>None\<close> when there is no object.\<close>

definition deref :: "'a heap \<Rightarrow> ptr \<Rightarrow> 'a option" where
  "deref h p =
     (case h (base p) of
        None \<Rightarrow> None
      | Some cells \<Rightarrow> if off p < length cells then cells ! off p else None)"

text \<open>
  The \<open>n\<close> objects of the range \<open>[p, p + n)\<close>; \<open>None\<close> unless all of them
  exist. An empty range reads nothing.
\<close>

definition read_n :: "'a heap \<Rightarrow> ptr \<Rightarrow> nat \<Rightarrow> 'a list option" where
  "read_n h p n =
     (if n = 0 then Some []
      else case h (base p) of
        None \<Rightarrow> None
      | Some cells \<Rightarrow>
          if off p + n \<le> length cells \<and> list_all (\<lambda>c. c \<noteq> None) (take n (drop (off p) cells))
          then Some (map the (take n (drop (off p) cells)))
          else None)"

text \<open>Overwriting the cells of the range \<open>[p, p + length cs)\<close>; an empty range writes nothing.\<close>

definition write_n :: "'a heap \<Rightarrow> ptr \<Rightarrow> 'a option list \<Rightarrow> error + 'a heap" where
  "write_n h p cs =
     (if cs = [] then Inr h
      else case h (base p) of
        None \<Rightarrow> Inl undefined_behaviour
      | Some cells \<Rightarrow>
          if off p + length cs \<le> length cells
          then Inr (h(base p \<mapsto> take (off p) cells @ cs @ drop (off p + length cs) cells))
          else Inl undefined_behaviour)"

text \<open>
  \<^verbatim>\<open>std::uninitialized_default_construct_n(_data, size)\<close> default-initialises
  \<open>size\<close> elements. What default-initialisation leaves in a cell depends on the element
  type and is the argument \<open>init\<close>: an object for a class type (\<open>Some v\<close>), an
  indeterminate value for a scalar (\<open>None\<close>).
\<close>

definition uninitialized_default_construct_n ::
  "'a heap \<Rightarrow> ptr \<Rightarrow> nat \<Rightarrow> 'a option \<Rightarrow> error + 'a heap" where
  "uninitialized_default_construct_n h p n init = write_n h p (replicate n init)"

text \<open>\<^verbatim>\<open>std::uninitialized_copy_n(data, size, _data)\<close>\<close>

definition uninitialized_copy_n :: "'a heap \<Rightarrow> ptr \<Rightarrow> nat \<Rightarrow> ptr \<Rightarrow> error + 'a heap" where
  "uninitialized_copy_n h src n dst =
     (case read_n h src n of
        None \<Rightarrow> Inl undefined_behaviour
      | Some vs \<Rightarrow> write_n h dst (map Some vs))"

text \<open>
  \<^verbatim>\<open>std::destroy_n(_data, _size)\<close> runs the destructor of the objects in the range
  and leaves raw storage; the result carries the objects destroyed.
\<close>

definition destroy_n :: "'a heap \<Rightarrow> ptr \<Rightarrow> nat \<Rightarrow> error + ('a heap \<times> 'a list)" where
  "destroy_n h p n =
     (if n = 0 then Inr (h, [])
      else case h (base p) of
        None \<Rightarrow> Inl undefined_behaviour
      | Some cells \<Rightarrow>
          if off p + n \<le> length cells
          then Inr (h(base p \<mapsto> take (off p) cells @ replicate n None @ drop (off p + n) cells),
                    List.map_filter id (take n (drop (off p) cells)))
          else Inl undefined_behaviour)"

text \<open>\<^verbatim>\<open>void destroy() noexcept { std::destroy_n(_data, _size); deallocate(_data); }\<close>\<close>

definition destroy :: "'a world \<Rightarrow> nat \<Rightarrow> error + 'a world" where
  "destroy w this =
     (case destroy_n (heap w) (buf_data (bufs w this)) (unat (buf_size (bufs w this))) of
        Inl e \<Rightarrow> Inl e
      | Inr (h1, ds) \<Rightarrow>
          (case deallocate h1 (buf_data (bufs w this)) of
             Inl e \<Rightarrow> Inl e
           | Inr h2 \<Rightarrow> Inr (w\<lparr>heap := h2, destroyed := destroyed w @ ds\<rparr>)))"

text \<open>The assignments \<^verbatim>\<open>_data = d\<close> and \<^verbatim>\<open>_size = n\<close> of the object \<open>this\<close>.\<close>

definition set_data :: "'a world \<Rightarrow> nat \<Rightarrow> ptr \<Rightarrow> 'a world" where
  "set_data w this d = w\<lparr>bufs := (bufs w)(this := (bufs w this)\<lparr>buf_data := d\<rparr>)\<rparr>"

definition set_size :: "'a world \<Rightarrow> nat \<Rightarrow> size_t \<Rightarrow> 'a world" where
  "set_size w this n = w\<lparr>bufs := (bufs w)(this := (bufs w this)\<lparr>buf_size := n\<rparr>)\<rparr>"

text \<open>\<^verbatim>\<open>constexpr Buffer() noexcept = default;\<close>\<close>

definition Buffer_default :: "'a world \<Rightarrow> nat \<Rightarrow> 'a world" where
  "Buffer_default w this = w\<lparr>bufs := (bufs w)(this := Buffer_empty)\<rparr>"

text \<open>
  \<^verbatim>\<open>explicit Buffer(size_t size) : _data{ allocate(size) }, _size{ size }
  { std::uninitialized_default_construct_n(_data, size); }\<close>
\<close>

definition Buffer_sized ::
  "size_t \<Rightarrow> 'a option \<Rightarrow> addr option \<Rightarrow> 'a world \<Rightarrow> nat \<Rightarrow> size_t \<Rightarrow> error + 'a world" where
  "Buffer_sized sizeof_T init reply w this sz =
     (case allocate sizeof_T (heap w) reply sz of
        Inl e \<Rightarrow> Inl e
      | Inr (d, h1) \<Rightarrow>
          (case uninitialized_default_construct_n h1 d (unat sz) init of
             Inl e \<Rightarrow> Inl e
           | Inr h2 \<Rightarrow>
               Inr (w\<lparr>heap := h2,
                      bufs := (bufs w)(this := \<lparr>buf_data = d, buf_size = sz\<rparr>)\<rparr>)))"

text \<open>
  \<^verbatim>\<open>Buffer(const T* data, size_t size) : _data{ allocate(size) }, _size{ size }
  { std::uninitialized_copy_n(data, size, _data); }\<close>
\<close>

definition Buffer_from ::
  "size_t \<Rightarrow> addr option \<Rightarrow> 'a world \<Rightarrow> nat \<Rightarrow> ptr \<Rightarrow> size_t \<Rightarrow> error + 'a world" where
  "Buffer_from sizeof_T reply w this data sz =
     (case allocate sizeof_T (heap w) reply sz of
        Inl e \<Rightarrow> Inl e
      | Inr (d, h1) \<Rightarrow>
          (case uninitialized_copy_n h1 data (unat sz) d of
             Inl e \<Rightarrow> Inl e
           | Inr h2 \<Rightarrow>
               Inr (w\<lparr>heap := h2,
                      bufs := (bufs w)(this := \<lparr>buf_data = d, buf_size = sz\<rparr>)\<rparr>)))"

text \<open>
  \<^verbatim>\<open>Buffer(Buffer&& other) noexcept :
    _data{ std::exchange(other._data, nullptr) }, _size{ std::exchange(other._size, 0) } {}\<close>
  Each \<^verbatim>\<open>std::exchange\<close> reads the old member, stores the new value in \<open>other\<close>
  and only then is the old value stored in \<open>this\<close>.
\<close>

definition Buffer_move :: "'a world \<Rightarrow> nat \<Rightarrow> nat \<Rightarrow> 'a world" where
  "Buffer_move w this other =
     (let d = buf_data (bufs w other);
          w1 = set_data w other null_ptr;
          w2 = set_data w1 this d;
          n = buf_size (bufs w2 other);
          w3 = set_size w2 other 0
      in set_size w3 this n)"

text \<open>
  \<^verbatim>\<open>destroy(); _data = std::exchange(other._data, nullptr);
  _size = std::exchange(other._size, 0); return *this;\<close>
\<close>

definition Buffer_move_assign :: "'a world \<Rightarrow> nat \<Rightarrow> nat \<Rightarrow> error + 'a world" where
  "Buffer_move_assign w this other =
     (case destroy w this of
        Inl e \<Rightarrow> Inl e
      | Inr w0 \<Rightarrow>
          (let d = buf_data (bufs w0 other);
               w1 = set_data w0 other null_ptr;
               w2 = set_data w1 this d;
               n = buf_size (bufs w2 other);
               w3 = set_size w2 other 0
           in Inr (set_size w3 this n)))"

text \<open>\<^verbatim>\<open>~Buffer() { destroy(); }\<close>\<close>

definition Buffer_dtor :: "'a world \<Rightarrow> nat \<Rightarrow> error + 'a world" where
  "Buffer_dtor w this = destroy w this"

text \<open>
  \<^verbatim>\<open>explicit operator bool()\<close>, \<^verbatim>\<open>data()\<close>, \<^verbatim>\<open>size()\<close>, \<^verbatim>\<open>begin()\<close> and
  \<^verbatim>\<open>end()\<close> (\<^verbatim>\<open>return _data + _size;\<close>).
\<close>

definition operator_bool :: "Buffer \<Rightarrow> bool" where
  "operator_bool b = (buf_data b \<noteq> null_ptr)"

definition Buffer_data :: "Buffer \<Rightarrow> ptr" where
  "Buffer_data b = buf_data b"

definition Buffer_size :: "Buffer \<Rightarrow> size_t" where
  "Buffer_size b = buf_size b"

definition Buffer_begin :: "Buffer \<Rightarrow> ptr" where
  "Buffer_begin b = buf_data b"

definition Buffer_end :: "Buffer \<Rightarrow> ptr" where
  "Buffer_end b = ptr_add (buf_data b) (unat (buf_size b))"

text \<open>
  \<^verbatim>\<open>T& operator[](size_t index) noexcept { assert(index < _size); return _data[index]; }\<close>
  read as a value. An index that fails the assertion is outside the contract.
\<close>

definition index :: "'a heap \<Rightarrow> Buffer \<Rightarrow> size_t \<Rightarrow> error + 'a" where
  "index h b i =
     (if i < buf_size b
      then (case deref h (ptr_add (buf_data b) (unat i)) of
              None \<Rightarrow> Inl undefined_behaviour
            | Some v \<Rightarrow> Inr v)
      else Inl undefined_behaviour)"

text \<open>
  Iteration \<^verbatim>\<open>for (auto it = first; it != fin; ++it) visit(*it);\<close> and the list
  of elements it visits. Stepping a pointer that cannot reach \<open>fin\<close> inside its block
  runs off the array.
\<close>

function iterate :: "'a heap \<Rightarrow> ptr \<Rightarrow> ptr \<Rightarrow> error + 'a list" where
  "iterate h it fin =
     (if it = fin then Inr []
      else if base it = base fin \<and> off it < off fin
      then (case deref h it of
              None \<Rightarrow> Inl undefined_behaviour
            | Some v \<Rightarrow>
                (case iterate h (ptr_add it 1) fin of
                   Inl e \<Rightarrow> Inl e
                 | Inr vs \<Rightarrow> Inr (v # vs)))
      else Inl undefined_behaviour)"
  by pat_completeness auto
termination
  by (relation "measure (\<lambda>(h, it, fin). off fin - off it)") (auto simp: ptr_add_def)

text \<open>The equation of \<open>iterate\<close> is unfolded by hand, one step at a time.\<close>

declare iterate.simps [simp del]

text \<open>
  A program fragment: constructions, moves and move assignments of \<^verbatim>\<open>Buffer\<close>
  objects, each allocation with the runtime's answer. \<open>run_ops\<close> performs them in order
  and stops at the first error.
\<close>

datatype Buffer_op =
    BDefault nat
  | BSized nat size_t "addr option"
  | BFrom nat ptr size_t "addr option"
  | BMove nat nat
  | BMoveAssign nat nat

fun exec_op :: "size_t \<Rightarrow> 'a option \<Rightarrow> 'a world \<Rightarrow> Buffer_op \<Rightarrow> error + 'a world" where
  "exec_op sizeof_T init w (BDefault t) = Inr (Buffer_default w t)"
| "exec_op sizeof_T init w (BSized t n reply) = Buffer_sized sizeof_T init reply w t n"
| "exec_op sizeof_T init w (BFrom t src n reply) = Buffer_from sizeof_T reply w t src n"
| "exec_op sizeof_T init w (BMove t other) = Inr (Buffer_move w t other)"
| "exec_op sizeof_T init w (BMoveAssign t other) = Buffer_move_assign w t other"

fun run_ops :: "size_t \<Rightarrow> 'a option \<Rightarrow> 'a world \<Rightarrow> Buffer_op list \<Rightarrow> error + 'a world" where
  "run_ops sizeof_T init w [] = Inr w"
| "run_ops sizeof_T init w (a # as) =
     (case exec_op sizeof_T init w a of
        Inl e \<Rightarrow> Inl e
      | Inr w' \<Rightarrow> run_ops sizeof_T init w' as)"

text \<open>The runtime's answers in a fragment.\<close>

fun op_replies :: "Buffer_op \<Rightarrow> addr option list" where
  "op_replies (BSized t n reply) = [reply]"
| "op_replies (BFrom t src n reply) = [reply]"
| "op_replies _ = []"

text \<open>
  A buffer owns its storage when it is empty, or its pointer is the start of a live block
  with room for its elements.
\<close>

definition owns_storage :: "'a world \<Rightarrow> nat \<Rightarrow> bool" where
  "owns_storage w this =
     (let b = bufs w this in
      if buf_data b = null_ptr then buf_size b = 0
      else off (buf_data b) = 0 \<and>
           (case heap w (base (buf_data b)) of
              None \<Rightarrow> False
            | Some cells \<Rightarrow> unat (buf_size b) \<le> length cells))"

text \<open>
  A program state for the examples: buffer 0 holds one element in the block at address 32,
  buffer 1 holds two elements in the block at address 16, every other buffer is empty.
\<close>

definition example_world :: "nat world" where
  "example_world =
     \<lparr>heap = [16 \<mapsto> [Some 7, Some 8], 32 \<mapsto> [Some 1]],
      bufs = (\<lambda>_. Buffer_empty)
               (0 := \<lparr>buf_data = \<lparr>base = 32, off = 0\<rparr>, buf_size = 1\<rparr>,
                1 := \<lparr>buf_data = \<lparr>base = 16, off = 0\<rparr>, buf_size = 2\<rparr>),
      destroyed = []\<rparr>"

text \<open>
  The state before any buffer is constructed, and a fragment for the examples: a buffer of
  three elements, a copy of two of them, a move construction, a move assignment, a default
  construction and a construction with size 0.
\<close>

definition empty_world :: "'a world" where
  "empty_world = \<lparr>heap = Map.empty, bufs = (\<lambda>_. Buffer_empty), destroyed = []\<rparr>"

definition example_ops :: "Buffer_op list" where
  "example_ops =
     [BSized 0 3 (Some 16),
      BFrom 1 \<lparr>base = 16, off = 1\<rparr> 2 (Some 32),
      BMove 2 0,
      BMoveAssign 1 2,
      BDefault 3,
      BSized 4 0 None]"

subsection \<open>Row cache with scroll reuse\<close>

text \<open>
  Modelled from the spec: this header only declares the three buffers
  \<^verbatim>\<open>unorderedRows\<close>, \<^verbatim>\<open>rowsScratch\<close> and \<^verbatim>\<open>rows\<close>; the code that scrolls them
  is in the engine. The spec describes \<^verbatim>\<open>unorderedRows\<close> as the fixed backing store,
  one row per storage slot, \<^verbatim>\<open>rows\<close> as the screen order, top to bottom, of
  references into the store, and \<^verbatim>\<open>rowsScratch\<close> as a scratch sequence of the same
  size. A reference into the store is the number of the slot it points to. The rows
  marked for re-shaping are kept beside the three buffers.
\<close>

record RowCache =
  cache_unorderedRows :: "ShapedRow list"
  cache_rowsScratch :: "nat list"
  cache_rows :: "nat list"
  marked :: "nat list"

text \<open>
  Modelled from the spec: "\<^verbatim>\<open>rows\<close> is always a permutation of pointers into
  \<^verbatim>\<open>unorderedRows\<close>; no two screen positions reference the same storage slot."
\<close>

definition rows_permutation :: "RowCache \<Rightarrow> bool" where
  "rows_permutation c = (mset (cache_rows c) = mset [0..<length (cache_unorderedRows c)])"

text \<open>
  Modelled from the spec: on a scroll by \<open>n\<close> of \<open>k\<close> visible rows, the old screen
  positions that leave the view and the new screen positions that come into view. With
  \<open>n = 1\<close> and four rows, position 0 leaves and position 3 is exposed (the scenario
  \<open>[A,B,C,D]\<close> to \<open>[B,C,D,X]\<close>); a negative \<open>n\<close> scrolls the other way.
\<close>

definition scrolled_out :: "int \<Rightarrow> nat \<Rightarrow> nat list" where
  "scrolled_out n k = (if 0 \<le> n then [0..<nat n] else [k - nat (- n)..<k])"

definition exposed :: "int \<Rightarrow> nat \<Rightarrow> nat list" where
  "exposed n k = (if 0 \<le> n then [k - nat n..<k] else [0..<nat (- n)])"

text \<open>
  Modelled from the spec: "the cache builds the new \<^verbatim>\<open>rows\<close> ordering by copying
  pointers from the old ordering shifted by \<open>n\<close> into \<^verbatim>\<open>rowsScratch\<close>, filling the
  newly exposed \<open>|n|\<close> positions with rows drawn from the backing store that are being
  recycled (their previous screen position is now out of view) and marking exactly those
  recycled rows for re-shaping; then \<^verbatim>\<open>rows\<close> and \<^verbatim>\<open>rowsScratch\<close> are swapped."
  The spec leaves open what a scroll by more than the visible row count does; the result
  is \<open>None\<close> there. It does not fix the order of the recycled rows among
  themselves either; they keep the order they had.
\<close>

definition scroll :: "int \<Rightarrow> RowCache \<Rightarrow> RowCache option" where
  "scroll n c =
     (let old = cache_rows c; k = length old; m = nat \<bar>n\<bar> in
      if k < m then None
      else
        let recycled = (if 0 \<le> n then take m old else drop (k - m) old);
            shifted = (if 0 \<le> n then drop m old else take (k - m) old);
            c1 = c\<lparr>cache_rowsScratch := (if 0 \<le> n then shifted @ recycled else recycled @ shifted)\<rparr>;
            c2 = c1\<lparr>marked := recycled\<rparr>
        in Some (c2\<lparr>cache_rows := cache_rowsScratch c2, cache_rowsScratch := cache_rows c2\<rparr>))"

text \<open>
  The scenario of the spec: four rows \<open>A, B, C, D\<close> in the slots 0 to 3, shown in
  that order. The rows differ in their first glyph.
\<close>

definition cache_ABCD :: RowCache where
  "cache_ABCD =
     \<lparr>cache_unorderedRows =
        [ShapedRow_default\<lparr>glyphIndices := [65]\<rparr>, ShapedRow_default\<lparr>glyphIndices := [66]\<rparr>,
         ShapedRow_default\<lparr>glyphIndices := [67]\<rparr>, ShapedRow_default\<lparr>glyphIndices := [68]\<rparr>],
      cache_rowsScratch = [0, 0, 0, 0],
      cache_rows = [0, 1, 2, 3],
      marked = []\<rparr>"

section \<open>Theorems\<close>

subsection \<open>rect\<close>

text \<open>
  C10, as amended. For every rectangle over an element type whose comparison is total,
  \<^verbatim>\<open>empty()\<close> and \<^verbatim>\<open>non_empty()\<close> are exact complements: \<^verbatim>\<open>empty()\<close> is
  true if and only if \<^verbatim>\<open>non_empty()\<close> is false. That holds for any comparison in which
  \<^verbatim>\<open>a >= b\<close> is the negation of \<^verbatim>\<open>a < b\<close>, hence for the unsigned instances
  \<^verbatim>\<open>u16r\<close> and \<^verbatim>\<open>u32r\<close>, for the signed instances \<^verbatim>\<open>i16r\<close> and
  \<^verbatim>\<open>i32r\<close>, and for \<^verbatim>\<open>f32r\<close> as long as no field is a NaN.
\<close>

theorem rect_empty_iff_not_non_empty:
  "((\<forall>a b. ge a b = (\<not> lt a b)) \<longrightarrow> rect_empty ge r = (\<not> rect_non_empty lt r))
   \<and> rect_empty unsigned_ge ru = (\<not> rect_non_empty unsigned_less ru)
   \<and> rect_empty signed_ge rs = (\<not> rect_non_empty signed_less rs)
   \<and> (rect_no_nan rf \<longrightarrow> rect_empty f32_ge rf = (\<not> rect_non_empty f32_less rf))"
proof -
  have total: "rect_empty ge r = (\<not> rect_non_empty lt r)"
    if "\<forall>a b. ge a b = (\<not> lt a b)"
    using that by (simp add: rect_empty_def rect_non_empty_def)
  have u: "rect_empty unsigned_ge ru = (\<not> rect_non_empty unsigned_less ru)"
    by (auto simp: rect_empty_def rect_non_empty_def unsigned_ge_def unsigned_less_def)
  have s: "rect_empty signed_ge rs = (\<not> rect_non_empty signed_less rs)"
    by (auto simp: rect_empty_def rect_non_empty_def signed_ge_def signed_less_def)
  have f: "rect_empty f32_ge rf = (\<not> rect_non_empty f32_less rf)" if "rect_no_nan rf"
    using that
    by (auto simp: rect_empty_def rect_non_empty_def rect_no_nan_def f32_ge_def f32_less_def)
  from total u s f show ?thesis by blast
qed

text \<open>
  The rectangle \<open>{-1.0f, 0.0f, 1.0f, 1.0f}\<close> is not empty; the unsigned rectangle
  \<open>{1, 2, 3, 4}\<close> is not empty; the signed 16-bit rectangle \<open>{-1, 5, 1, 5}\<close> is
  empty, its top being its bottom.
\<close>

theorem rect_empty_iff_not_non_empty_witness:
  "rect_no_nan \<lparr>left = 0xBF800000, top' = 0, right = 0x3F800000, bottom = 0x3F800000\<rparr>
   \<and> rect_non_empty f32_less
        \<lparr>left = 0xBF800000, top' = 0, right = 0x3F800000, bottom = 0x3F800000\<rparr>
   \<and> \<not> rect_empty f32_ge
        \<lparr>left = 0xBF800000, top' = 0, right = 0x3F800000, bottom = 0x3F800000\<rparr>
   \<and> rect_non_empty unsigned_less \<lparr>left = 1 :: u16, top' = 2, right = 3, bottom = 4\<rparr>
   \<and> \<not> rect_empty unsigned_ge \<lparr>left = 1 :: u16, top' = 2, right = 3, bottom = 4\<rparr>
   \<and> rect_empty signed_ge \<lparr>left = - 1 :: i16, top' = 5, right = 1, bottom = 5\<rparr>
   \<and> \<not> rect_non_empty signed_less \<lparr>left = - 1 :: i16, top' = 5, right = 1, bottom = 5\<rparr>"
proof -
  let ?rf = "\<lparr>left = 0xBF800000 :: f32, top' = 0, right = 0x3F800000, bottom = 0x3F800000\<rparr>"
  let ?ru = "\<lparr>left = 1 :: u16, top' = 2, right = 3, bottom = 4\<rparr>"
  let ?rs = "\<lparr>left = - 1 :: i16, top' = 5, right = 1, bottom = 5\<rparr>"
  have nn: "rect_no_nan ?rf"
    by (simp add: rect_no_nan_def f32_is_nan_def)
  have tot: "\<forall>a b :: u16. unsigned_ge a b = (\<not> unsigned_less a b)"
    by (simp add: unsigned_ge_def unsigned_less_def not_less)
  have f1: "rect_non_empty f32_less ?rf"
    by (simp add: rect_non_empty_def f32_less_def f32_is_nan_def f32_key_def)
  have u1: "rect_non_empty unsigned_less ?ru"
    by (simp add: rect_non_empty_def unsigned_less_def)
  have s1: "rect_empty signed_ge ?rs"
    by (simp add: rect_empty_def signed_ge_def)
  have f2: "\<not> rect_empty f32_ge ?rf"
    using rect_empty_iff_not_non_empty [of unsigned_ge unsigned_less ?ru ?ru ?rs ?rf] nn tot f1
    by blast
  have u2: "\<not> rect_empty unsigned_ge ?ru"
    using rect_empty_iff_not_non_empty [of unsigned_ge unsigned_less ?ru ?ru ?rs ?rf] tot u1
    by blast
  have s2: "\<not> rect_non_empty signed_less ?rs"
    using rect_empty_iff_not_non_empty [of unsigned_ge unsigned_less ?ru ?ru ?rs ?rf] s1
    by blast
  from nn f1 f2 u1 u2 s1 s2 show ?thesis by blast
qed

text \<open>
  C10 as stated, for every element type of the header, fails for \<^verbatim>\<open>f32r\<close>: with a
  NaN as its left edge (the quiet NaN \<open>0x7FC00000\<close>) and top \<open>0.0f\<close> below bottom
  \<open>1.0f\<close>, no comparison of \<^verbatim>\<open>empty()\<close> is true and the first comparison of
  \<^verbatim>\<open>non_empty()\<close> is false, so both functions return false.
\<close>

theorem rect_f32_nan_counterexample:
  "\<not> rect_empty f32_ge
       \<lparr>left = 0x7FC00000, top' = 0, right = 0x3F800000, bottom = 0x3F800000\<rparr>
   \<and> \<not> rect_non_empty f32_less
       \<lparr>left = 0x7FC00000, top' = 0, right = 0x3F800000, bottom = 0x3F800000\<rparr>
   \<and> f32_is_nan 0x7FC00000"
  by (simp add: rect_empty_def rect_non_empty_def f32_ge_def f32_less_def f32_is_nan_def
        f32_key_def)

subsection \<open>FontFace\<close>

lemma calls_set_ptr: "calls (set_ptr s t p) = calls s"
  by (simp add: set_ptr_def)

lemma faces_set_ptr: "faces (set_ptr s t p) = (faces s)(t := p)"
  by (simp add: set_ptr_def)

lemma faces_release': "faces (release' s t) = faces s"
  by (simp add: release'_def)

lemma faces_addRef': "faces (addRef' s t) = faces s"
  by (simp add: addRef'_def)

lemma calls_release':
  "calls (release' s t) =
     calls s @ (if IDWriteFontFace_SoftFont < faces s t then [Release (faces s t)] else [])"
  by (simp add: release'_def is_proper_font_def)

lemma calls_addRef':
  "calls (addRef' s t) =
     calls s @ (if IDWriteFontFace_SoftFont < faces s t then [AddRef (faces s t)] else [])"
  by (simp add: addRef'_def is_proper_font_def)

lemmas FontFace_op_defs =
  FontFace_default_def FontFace_from_ptr_def FontFace_from_com_ptr_def
  FontFace_from_com_ptr_moved_def FontFace_copy_def FontFace_move_def
  FontFace_copy_assign_def FontFace_move_assign_def FontFace_dtor_def
  attach_def detach_def get_def

lemmas FontFace_state_simps =
  calls_set_ptr faces_set_ptr faces_release' faces_addRef' calls_release' calls_addRef'

lemma exec_calls:
  "\<exists>ev. calls (exec s a) = calls s @ ev \<and> (\<forall>c\<in>set ev. IDWriteFontFace_SoftFont < call_target c)"
  by (cases a) (auto simp: FontFace_op_defs FontFace_state_simps Let_def)

lemma run_calls:
  "\<exists>ev. calls (run s ops) = calls s @ ev \<and> (\<forall>c\<in>set ev. IDWriteFontFace_SoftFont < call_target c)"
proof (induction ops arbitrary: s)
  case Nil
  show ?case by (simp add: run_def)
next
  case (Cons a ops)
  obtain ev1 where e1: "calls (exec s a) = calls s @ ev1"
    and t1: "\<forall>c\<in>set ev1. IDWriteFontFace_SoftFont < call_target c"
    using exec_calls by blast
  obtain ev2 where e2: "calls (run (exec s a) ops) = calls (exec s a) @ ev2"
    and t2: "\<forall>c\<in>set ev2. IDWriteFontFace_SoftFont < call_target c"
    using Cons.IH by blast
  have "calls (run s (a # ops)) = calls s @ (ev1 @ ev2)"
    using e1 e2 by (simp add: run_def)
  moreover have "\<forall>c\<in>set (ev1 @ ev2). IDWriteFontFace_SoftFont < call_target c"
    using t1 t2 by auto
  ultimately show ?case by blast
qed

lemma null_or_soft_not_proper: "null_or_soft p \<Longrightarrow> \<not> IDWriteFontFace_SoftFont < p"
  by (auto simp: null_or_soft_def nullptr_def)

lemma null_or_soft_nullptr: "null_or_soft nullptr"
  by (simp add: null_or_soft_def)

lemma exec_quiet:
  assumes "\<forall>t. null_or_soft (faces s t)" and "\<forall>p\<in>set (op_ptrs a). null_or_soft p"
  shows "calls (exec s a) = calls s \<and> (\<forall>t. null_or_soft (faces (exec s a) t))"
  using assms
  by (cases a)
     (simp_all add: FontFace_op_defs FontFace_state_simps Let_def
        null_or_soft_not_proper null_or_soft_nullptr)

lemma run_quiet:
  assumes "\<forall>t. null_or_soft (faces s t)"
    and "\<forall>p\<in>set (concat (map op_ptrs ops)). null_or_soft p"
  shows "calls (run s ops) = calls s"
  using assms
proof (induction ops arbitrary: s)
  case Nil
  show ?case by (simp add: run_def)
next
  case (Cons a ops)
  have a: "\<forall>p\<in>set (op_ptrs a). null_or_soft p" using Cons.prems(2) by simp
  have r: "\<forall>p\<in>set (concat (map op_ptrs ops)). null_or_soft p" using Cons.prems(2) by simp
  have q: "calls (exec s a) = calls s \<and> (\<forall>t. null_or_soft (faces (exec s a) t))"
    using exec_quiet [OF Cons.prems(1) a] .
  have "calls (run (exec s a) ops) = calls (exec s a)"
    using Cons.IH [of "exec s a"] q r by blast
  then show ?case using q by (simp add: run_def)
qed

text \<open>
  C2. \<^verbatim>\<open>is_proper_font()\<close> is false when the stored pointer is null, false when it
  is the soft-font sentinel, and true for every stored pointer strictly greater than the
  sentinel.
\<close>

theorem is_proper_font_excludes_null_and_sentinel:
  "(faces s this = nullptr \<longrightarrow> \<not> is_proper_font s this)
   \<and> (faces s this = IDWriteFontFace_SoftFont \<longrightarrow> \<not> is_proper_font s this)
   \<and> (IDWriteFontFace_SoftFont < faces s this \<longrightarrow> is_proper_font s this)"
  by (simp add: is_proper_font_def nullptr_def)

theorem is_proper_font_excludes_null_and_sentinel_witness:
  "\<not> is_proper_font \<lparr>faces = (\<lambda>_. nullptr), calls = []\<rparr> 0
   \<and> \<not> is_proper_font \<lparr>faces = (\<lambda>_. IDWriteFontFace_SoftFont), calls = []\<rparr> 0
   \<and> is_proper_font \<lparr>faces = (\<lambda>_. 4096), calls = []\<rparr> 0"
  using is_proper_font_excludes_null_and_sentinel
          [of "\<lparr>faces = (\<lambda>_. nullptr), calls = []\<rparr>" 0]
        is_proper_font_excludes_null_and_sentinel
          [of "\<lparr>faces = (\<lambda>_. IDWriteFontFace_SoftFont), calls = []\<rparr>" 0]
        is_proper_font_excludes_null_and_sentinel
          [of "\<lparr>faces = (\<lambda>_. 4096), calls = []\<rparr>" 0]
  by (simp add: IDWriteFontFace_SoftFont_def nullptr_def sizeof_IDWriteFontFace_def)

text \<open>
  C1. Reference counting is performed only through pointers strictly greater than the
  sentinel. Whatever sequence of constructions, copies, moves, assignments, attach,
  detach and destructions is run, every \<^verbatim>\<open>AddRef\<close> and \<^verbatim>\<open>Release\<close> it
  issues goes through a pointer above the sentinel; a program all of whose handles and
  constructor arguments are null or the sentinel issues no call at all; and each single
  operation is silent when the handles it reads hold null or the sentinel: construction
  from such a value, copy and move construction from such a handle, copy and move
  assignment between such handles, and destruction of such a handle.
\<close>

theorem FontFace_refcount_only_for_proper_fonts:
  "(\<exists>ev. calls (run s ops) = calls s @ ev
         \<and> (\<forall>c\<in>set ev. IDWriteFontFace_SoftFont < call_target c))
   \<and> ((\<forall>t. null_or_soft (faces s t)) \<and> (\<forall>p\<in>set (concat (map op_ptrs ops)). null_or_soft p)
        \<longrightarrow> calls (run s ops) = calls s)
   \<and> (null_or_soft p \<longrightarrow> calls (FontFace_from_ptr s this p) = calls s)
   \<and> (null_or_soft (faces s other) \<longrightarrow> calls (FontFace_copy s this other) = calls s)
   \<and> calls (FontFace_move s this other) = calls s
   \<and> (null_or_soft (faces s this) \<and> null_or_soft (faces s other)
        \<longrightarrow> calls (FontFace_copy_assign s this other) = calls s
          \<and> calls (FontFace_move_assign s this other) = calls s)
   \<and> (null_or_soft (faces s this) \<longrightarrow> calls (FontFace_dtor s this) = calls s)"
proof -
  have a: "\<exists>ev. calls (run s ops) = calls s @ ev
         \<and> (\<forall>c\<in>set ev. IDWriteFontFace_SoftFont < call_target c)"
    by (rule run_calls)
  have b: "(\<forall>t. null_or_soft (faces s t)) \<and> (\<forall>p\<in>set (concat (map op_ptrs ops)). null_or_soft p)
        \<longrightarrow> calls (run s ops) = calls s"
    using run_quiet by blast
  have c: "null_or_soft p \<longrightarrow> calls (FontFace_from_ptr s this p) = calls s"
    by (simp add: FontFace_op_defs FontFace_state_simps null_or_soft_not_proper)
  have d: "null_or_soft (faces s other) \<longrightarrow> calls (FontFace_copy s this other) = calls s"
    by (simp add: FontFace_op_defs FontFace_state_simps null_or_soft_not_proper)
  have e: "calls (FontFace_move s this other) = calls s"
    by (simp add: FontFace_op_defs FontFace_state_simps)
  have f: "null_or_soft (faces s this) \<and> null_or_soft (faces s other)
        \<longrightarrow> calls (FontFace_copy_assign s this other) = calls s
          \<and> calls (FontFace_move_assign s this other) = calls s"
    by (simp add: FontFace_op_defs FontFace_state_simps Let_def null_or_soft_not_proper)
  have g: "null_or_soft (faces s this) \<longrightarrow> calls (FontFace_dtor s this) = calls s"
    by (simp add: FontFace_op_defs FontFace_state_simps null_or_soft_not_proper)
  from a b c d e f g show ?thesis by blast
qed

theorem FontFace_refcount_only_for_proper_fonts_witness:
  "calls (run \<lparr>faces = (\<lambda>_. nullptr), calls = []\<rparr>
         [FromPtr 0 IDWriteFontFace_SoftFont, Copy 1 0, Move 2 1, CopyAssign 0 2,
          MoveAssign 1 0, Default 3, CopyAssign 2 3, Dtor 0, Dtor 1, Dtor 2, Dtor 3]) = []
   \<and> calls (FontFace_from_ptr \<lparr>faces = (\<lambda>_. nullptr), calls = []\<rparr> 0 IDWriteFontFace_SoftFont) = []
   \<and> calls (FontFace_copy \<lparr>faces = (\<lambda>_. IDWriteFontFace_SoftFont), calls = []\<rparr> 1 0) = []
   \<and> calls (FontFace_copy_assign \<lparr>faces = (\<lambda>_. IDWriteFontFace_SoftFont), calls = []\<rparr> 1 0) = []
   \<and> calls (FontFace_move_assign \<lparr>faces = (\<lambda>_. IDWriteFontFace_SoftFont), calls = []\<rparr> 1 0) = []
   \<and> calls (FontFace_dtor \<lparr>faces = (\<lambda>_. IDWriteFontFace_SoftFont), calls = []\<rparr> 0) = []
   \<and> list_all (\<lambda>c. IDWriteFontFace_SoftFont < call_target c)
        (calls (run \<lparr>faces = (\<lambda>_. nullptr), calls = []\<rparr>
           [FromPtr 0 4096, Copy 1 0, CopyAssign 2 1, Move 3 2, Dtor 0, Dtor 2]))
   \<and> calls (run \<lparr>faces = (\<lambda>_. nullptr), calls = []\<rparr>
           [FromPtr 0 4096, Copy 1 0, CopyAssign 2 1, Move 3 2, Dtor 0, Dtor 2])
       = [AddRef 4096, AddRef 4096, AddRef 4096, Release 4096]"
proof -
  have quiet: "calls (run \<lparr>faces = (\<lambda>_. nullptr), calls = []\<rparr>
         [FromPtr 0 IDWriteFontFace_SoftFont, Copy 1 0, Move 2 1, CopyAssign 0 2,
          MoveAssign 1 0, Default 3, CopyAssign 2 3, Dtor 0, Dtor 1, Dtor 2, Dtor 3]) = []
   \<and> calls (FontFace_from_ptr \<lparr>faces = (\<lambda>_. nullptr), calls = []\<rparr> 0 IDWriteFontFace_SoftFont) = []
   \<and> calls (FontFace_copy \<lparr>faces = (\<lambda>_. IDWriteFontFace_SoftFont), calls = []\<rparr> 1 0) = []
   \<and> calls (FontFace_copy_assign \<lparr>faces = (\<lambda>_. IDWriteFontFace_SoftFont), calls = []\<rparr> 1 0) = []
   \<and> calls (FontFace_move_assign \<lparr>faces = (\<lambda>_. IDWriteFontFace_SoftFont), calls = []\<rparr> 1 0) = []
   \<and> calls (FontFace_dtor \<lparr>faces = (\<lambda>_. IDWriteFontFace_SoftFont), calls = []\<rparr> 0) = []"
    using FontFace_refcount_only_for_proper_fonts
            [of "\<lparr>faces = (\<lambda>_. nullptr), calls = []\<rparr>"
                "[FromPtr 0 IDWriteFontFace_SoftFont, Copy 1 0, Move 2 1, CopyAssign 0 2,
                  MoveAssign 1 0, Default 3, CopyAssign 2 3, Dtor 0, Dtor 1, Dtor 2, Dtor 3]"
                IDWriteFontFace_SoftFont 0 1]
          FontFace_refcount_only_for_proper_fonts
            [of "\<lparr>faces = (\<lambda>_. IDWriteFontFace_SoftFont), calls = []\<rparr>" "[]"
                IDWriteFontFace_SoftFont 1 0]
          FontFace_refcount_only_for_proper_fonts
            [of "\<lparr>faces = (\<lambda>_. IDWriteFontFace_SoftFont), calls = []\<rparr>" "[]"
                IDWriteFontFace_SoftFont 0 0]
    by (simp add: null_or_soft_def)
  have loud: "list_all (\<lambda>c. IDWriteFontFace_SoftFont < call_target c)
        (calls (run \<lparr>faces = (\<lambda>_. nullptr), calls = []\<rparr>
           [FromPtr 0 4096, Copy 1 0, CopyAssign 2 1, Move 3 2, Dtor 0, Dtor 2]))"
    using FontFace_refcount_only_for_proper_fonts
            [of "\<lparr>faces = (\<lambda>_. nullptr), calls = []\<rparr>"
                "[FromPtr 0 4096, Copy 1 0, CopyAssign 2 1, Move 3 2, Dtor 0, Dtor 2]"
                nullptr 0 0]
    by (auto simp: list_all_iff)
  have trace: "calls (run \<lparr>faces = (\<lambda>_. nullptr), calls = []\<rparr>
           [FromPtr 0 4096, Copy 1 0, CopyAssign 2 1, Move 3 2, Dtor 0, Dtor 2])
       = [AddRef 4096, AddRef 4096, AddRef 4096, Release 4096]"
    by (simp add: run_def FontFace_op_defs FontFace_state_simps Let_def
          IDWriteFontFace_SoftFont_def nullptr_def sizeof_IDWriteFontFace_def)
  from quiet loud trace show ?thesis by blast
qed

subsection \<open>ShapedRow\<close>

lemma ShapedRow_clear_fields:
  "mappings (ShapedRow_clear r y h) = []"
  "glyphIndices (ShapedRow_clear r y h) = []"
  "glyphAdvances (ShapedRow_clear r y h) = []"
  "glyphOffsets (ShapedRow_clear r y h) = []"
  "colors (ShapedRow_clear r y h) = []"
  "gridLineRanges (ShapedRow_clear r y h) = []"
  "lineRendition (ShapedRow_clear r y h) = SingleWidth"
  "selectionFrom (ShapedRow_clear r y h) = 0"
  "selectionTo (ShapedRow_clear r y h) = 0"
  "dirtyTop (ShapedRow_clear r y h) = ucast y * ucast h"
  "dirtyBottom (ShapedRow_clear r y h) = ucast y * ucast h + ucast h"
  by (simp_all add: ShapedRow_clear_def)

lemma uint_ucast_u16_i32: "uint (ucast (a :: u16) :: i32) = uint a"
  by (simp add: uint_up_ucast is_up)

lemma uint_u16_bound: "uint (a :: u16) < 65536"
  using uint_lt2p [of a] by simp

lemma sint_i32_small: "uint (w :: i32) < 2147483648 \<Longrightarrow> sint w = uint w"
proof -
  assume b: "uint w < 2147483648"
  have lo: "- (2 ^ 31) \<le> uint w"
    by (rule order_trans [of _ 0]) simp_all
  have hi: "uint w < 2 ^ 31"
    using b by simp
  have "signed_take_bit 31 (uint w) = uint w"
    using lo hi by (rule signed_take_bit_int_eq_self)
  then show ?thesis by (simp add: sint_uint)
qed

lemma dirtyTop_no_overflow:
  assumes "uint (y :: u16) * uint (h :: u16) < 2147483648"
  shows "sint ((ucast y :: i32) * ucast h) = uint y * uint h"
proof -
  have nn: "0 \<le> uint y * uint h" by simp
  have u: "uint ((ucast y :: i32) * ucast h) = uint y * uint h"
    using assms nn by (simp add: uint_word_ariths uint_ucast_u16_i32 take_bit_eq_mod)
  show ?thesis using sint_i32_small [of "(ucast y :: i32) * ucast h"] u assms by simp
qed

lemma dirtyBottom_no_overflow:
  assumes "uint (y :: u16) * uint (h :: u16) + uint h < 2147483648"
  shows "sint ((ucast y :: i32) * ucast h + ucast h) = uint y * uint h + uint h"
proof -
  have nn: "0 \<le> uint y * uint h" "0 \<le> uint h" by simp_all
  have u: "uint ((ucast y :: i32) * ucast h + ucast h) = uint y * uint h + uint h"
    using assms nn
    by (simp add: uint_word_ariths uint_ucast_u16_i32 take_bit_eq_mod mod_add_left_eq)
  show ?thesis using sint_i32_small [of "(ucast y :: i32) * ucast h + ucast h"] u assms by simp
qed


lemma sint_ucast_u16_i32: "sint (ucast (a :: u16) :: i32) = uint a"
proof -
  have "uint (ucast a :: i32) < 2147483648"
    using uint_u16_bound [of a] by (simp add: uint_ucast_u16_i32)
  then show ?thesis
    using sint_i32_small [of "ucast a :: i32"] by (simp add: uint_ucast_u16_i32)
qed

text \<open>
  C3, as amended. After \<^verbatim>\<open>clear(y, cellHeight)\<close>, whatever the row held before, the
  mappings, glyph indices, glyph advances, glyph offsets, colors and grid-line ranges are
  empty, the line rendition is single width and the selection is empty
  (\<^verbatim>\<open>selectionFrom = selectionTo = 0\<close>). Whenever
  \<open>y * cellHeight + cellHeight\<close> fits the signed 32-bit coordinate (is at most
  \<open>2\<^sup>3\<^sup>1 - 1\<close>), the dirty interval is \<open>[y * cellHeight, y * cellHeight + cellHeight)\<close>:
  \<^verbatim>\<open>dirtyTop\<close> is the product and \<^verbatim>\<open>dirtyBottom\<close> is \<^verbatim>\<open>dirtyTop + cellHeight\<close>,
  as numbers.
\<close>

theorem ShapedRow_clear_resets_row:
  "mappings (ShapedRow_clear r y h) = []
   \<and> glyphIndices (ShapedRow_clear r y h) = []
   \<and> glyphAdvances (ShapedRow_clear r y h) = []
   \<and> glyphOffsets (ShapedRow_clear r y h) = []
   \<and> colors (ShapedRow_clear r y h) = []
   \<and> gridLineRanges (ShapedRow_clear r y h) = []
   \<and> lineRendition (ShapedRow_clear r y h) = SingleWidth
   \<and> selectionFrom (ShapedRow_clear r y h) = 0
   \<and> selectionTo (ShapedRow_clear r y h) = 0
   \<and> (uint y * uint h + uint h \<le> 2147483647 \<longrightarrow>
        sint (dirtyTop (ShapedRow_clear r y h)) = uint y * uint h
        \<and> sint (dirtyBottom (ShapedRow_clear r y h))
            = sint (dirtyTop (ShapedRow_clear r y h)) + uint h)"
proof -
  have fits: "sint (dirtyTop (ShapedRow_clear r y h)) = uint y * uint h
        \<and> sint (dirtyBottom (ShapedRow_clear r y h))
            = sint (dirtyTop (ShapedRow_clear r y h)) + uint h"
    if b: "uint y * uint h + uint h \<le> 2147483647"
  proof -
    have "0 \<le> uint h" by simp
    then have t: "uint y * uint h < 2147483648" using b by linarith
    have bb: "uint y * uint h + uint h < 2147483648" using b by linarith
    show ?thesis
      using dirtyTop_no_overflow [OF t] dirtyBottom_no_overflow [OF bb]
      by (simp add: ShapedRow_clear_fields)
  qed
  then show ?thesis by (simp add: ShapedRow_clear_fields)
qed

theorem ShapedRow_clear_resets_row_witness:
  "uint (3 :: u16) * uint (20 :: u16) + uint (20 :: u16) \<le> 2147483647
   \<and> mappings (ShapedRow_clear
        (ShapedRow_default\<lparr>mappings := [\<lparr>fontFace = 4096, fontEmSize = 0, glyphsFrom = 0, glyphsTo = 2\<rparr>],
           glyphIndices := [7, 9], glyphAdvances := [1, 1], colors := [255, 255],
           lineRendition := DoubleWidth, selectionFrom := 1, selectionTo := 2,
           dirtyTop := 5, dirtyBottom := 9\<rparr>) 3 20) = []
   \<and> glyphIndices (ShapedRow_clear
        (ShapedRow_default\<lparr>mappings := [\<lparr>fontFace = 4096, fontEmSize = 0, glyphsFrom = 0, glyphsTo = 2\<rparr>],
           glyphIndices := [7, 9], glyphAdvances := [1, 1], colors := [255, 255],
           lineRendition := DoubleWidth, selectionFrom := 1, selectionTo := 2,
           dirtyTop := 5, dirtyBottom := 9\<rparr>) 3 20) = []
   \<and> lineRendition (ShapedRow_clear
        (ShapedRow_default\<lparr>mappings := [\<lparr>fontFace = 4096, fontEmSize = 0, glyphsFrom = 0, glyphsTo = 2\<rparr>],
           glyphIndices := [7, 9], glyphAdvances := [1, 1], colors := [255, 255],
           lineRendition := DoubleWidth, selectionFrom := 1, selectionTo := 2,
           dirtyTop := 5, dirtyBottom := 9\<rparr>) 3 20) = SingleWidth
   \<and> sint (dirtyTop (ShapedRow_clear
        (ShapedRow_default\<lparr>mappings := [\<lparr>fontFace = 4096, fontEmSize = 0, glyphsFrom = 0, glyphsTo = 2\<rparr>],
           glyphIndices := [7, 9], glyphAdvances := [1, 1], colors := [255, 255],
           lineRendition := DoubleWidth, selectionFrom := 1, selectionTo := 2,
           dirtyTop := 5, dirtyBottom := 9\<rparr>) 3 20)) = 60
   \<and> sint (dirtyBottom (ShapedRow_clear
        (ShapedRow_default\<lparr>mappings := [\<lparr>fontFace = 4096, fontEmSize = 0, glyphsFrom = 0, glyphsTo = 2\<rparr>],
           glyphIndices := [7, 9], glyphAdvances := [1, 1], colors := [255, 255],
           lineRendition := DoubleWidth, selectionFrom := 1, selectionTo := 2,
           dirtyTop := 5, dirtyBottom := 9\<rparr>) 3 20)) = 80"
proof -
  have h: "uint (3 :: u16) * uint (20 :: u16) + uint (20 :: u16) \<le> 2147483647"
    by simp
  show ?thesis
    using h ShapedRow_clear_resets_row
            [of "ShapedRow_default\<lparr>mappings := [\<lparr>fontFace = 4096, fontEmSize = 0, glyphsFrom = 0, glyphsTo = 2\<rparr>],
                   glyphIndices := [7, 9], glyphAdvances := [1, 1], colors := [255, 255],
                   lineRendition := DoubleWidth, selectionFrom := 1, selectionTo := 2,
                   dirtyTop := 5, dirtyBottom := 9\<rparr>" 3 20]
    by simp
qed

text \<open>
  C3 as stated, for all arguments, fails where the product leaves the 32-bit range: with
  \<open>y = cellHeight = 65535\<close> the product is 4294836225, and the row is left with
  \<^verbatim>\<open>dirtyTop = -131071\<close> and \<^verbatim>\<open>dirtyBottom = -65536\<close>.
\<close>

theorem ShapedRow_clear_overflow_counterexample:
  "sint (dirtyTop (ShapedRow_clear ShapedRow_default 65535 65535))
     \<noteq> uint (65535 :: u16) * uint (65535 :: u16)
   \<and> uint (65535 :: u16) * uint (65535 :: u16) = 4294836225
   \<and> sint (dirtyTop (ShapedRow_clear ShapedRow_default 65535 65535)) = - 131071
   \<and> sint (dirtyBottom (ShapedRow_clear ShapedRow_default 65535 65535)) = - 65536"
  by (simp add: ShapedRow_clear_fields)

subsection \<open>RenderingPayload and settings\<close>

lemma MarkAllAsDirty_fields:
  "dirtyRectInPx (MarkAllAsDirty p) =
     \<lparr>left = 0, top' = 0,
      right = ucast (vec_x (targetSize (inner (settings p)))),
      bottom = ucast (vec_y (targetSize (inner (settings p))))\<rparr>"
  "invalidatedRows (MarkAllAsDirty p) =
     \<lparr>vec_x = 0, vec_y = vec_y (cellCount (inner (settings p)))\<rparr>"
  "scrollOffset (MarkAllAsDirty p) = 0"
  "settings (MarkAllAsDirty p) = settings p"
  by (simp_all add: MarkAllAsDirty_def)

text \<open>
  C4. \<^verbatim>\<open>MarkAllAsDirty()\<close> sets the dirty rectangle to
  \<open>{0, 0, targetSize.x, targetSize.y}\<close>, the invalidated rows to \<open>{0, cellCount.y}\<close>
  and the scroll offset to 0, whatever the payload held; with target size (800, 600) and
  cell count (100, 40) that is the rectangle \<open>{0, 0, 800, 600}\<close>, the row range
  \<open>{0, 40}\<close> and scroll offset 0.
\<close>

theorem MarkAllAsDirty_marks_everything:
  "rect_sint (dirtyRectInPx (MarkAllAsDirty p)) =
     \<lparr>left = 0, top' = 0,
      right = uint (vec_x (targetSize (inner (settings p)))),
      bottom = uint (vec_y (targetSize (inner (settings p))))\<rparr>
   \<and> invalidatedRows (MarkAllAsDirty p) =
       \<lparr>vec_x = 0, vec_y = vec_y (cellCount (inner (settings p)))\<rparr>
   \<and> scrollOffset (MarkAllAsDirty p) = 0
   \<and> (targetSize (inner (settings p)) = \<lparr>vec_x = 800, vec_y = 600\<rparr>
        \<and> cellCount (inner (settings p)) = \<lparr>vec_x = 100, vec_y = 40\<rparr> \<longrightarrow>
        rect_sint (dirtyRectInPx (MarkAllAsDirty p))
          = \<lparr>left = 0, top' = 0, right = 800, bottom = 600\<rparr>
        \<and> invalidatedRows (MarkAllAsDirty p) = \<lparr>vec_x = 0, vec_y = 40\<rparr>
        \<and> scrollOffset (MarkAllAsDirty p) = 0)"
  by (simp add: MarkAllAsDirty_fields rect_sint_def sint_ucast_u16_i32)

theorem MarkAllAsDirty_marks_everything_witness:
  "targetSize (inner (settings example_payload)) = \<lparr>vec_x = 800, vec_y = 600\<rparr>
   \<and> cellCount (inner (settings example_payload)) = \<lparr>vec_x = 100, vec_y = 40\<rparr>
   \<and> scrollOffset example_payload = 3
   \<and> rect_sint (dirtyRectInPx (MarkAllAsDirty example_payload))
       = \<lparr>left = 0, top' = 0, right = 800, bottom = 600\<rparr>
   \<and> invalidatedRows (MarkAllAsDirty example_payload) = \<lparr>vec_x = 0, vec_y = 40\<rparr>
   \<and> scrollOffset (MarkAllAsDirty example_payload) = 0"
proof -
  have h: "targetSize (inner (settings example_payload)) = \<lparr>vec_x = 800, vec_y = 600\<rparr>
     \<and> cellCount (inner (settings example_payload)) = \<lparr>vec_x = 100, vec_y = 40\<rparr>
     \<and> scrollOffset example_payload = 3"
    by (simp add: example_payload_def RenderingPayload_default_def)
  show ?thesis
    using h MarkAllAsDirty_marks_everything [of example_payload] by blast
qed

text \<open>
  C9. The settings returned by \<^verbatim>\<open>DirtyGenerationalSettings()\<close> carry generation 1
  on the outer wrapper and on each of the four groups (target, font, cursor, misc), and a
  fresh payload's \<^verbatim>\<open>backgroundBitmapGeneration\<close> is 1; each of them differs from a
  last-seen generation of 0 and so counts as changed.
\<close>

theorem dirty_settings_start_at_generation_1:
  "generation DirtyGenerationalSettings = 1
   \<and> generation (target (inner DirtyGenerationalSettings)) = 1
   \<and> generation (font (inner DirtyGenerationalSettings)) = 1
   \<and> generation (cursor (inner DirtyGenerationalSettings)) = 1
   \<and> generation (misc (inner DirtyGenerationalSettings)) = 1
   \<and> backgroundBitmapGeneration (RenderingPayload_default s0) = 1
   \<and> generation_changed 0 DirtyGenerationalSettings
   \<and> generation_changed 0 (target (inner DirtyGenerationalSettings))
   \<and> generation_changed 0 (font (inner DirtyGenerationalSettings))
   \<and> generation_changed 0 (cursor (inner DirtyGenerationalSettings))
   \<and> generation_changed 0 (misc (inner DirtyGenerationalSettings))
   \<and> backgroundBitmapGeneration (RenderingPayload_default s0) \<noteq> 0"
  by (simp add: DirtyGenerationalSettings_def generational_init_def generation_changed_def
        RenderingPayload_default_def)

subsection \<open>Buffer\<close>

lemma bufs_set_data: "bufs (set_data w t d) = (bufs w)(t := (bufs w t)\<lparr>buf_data := d\<rparr>)"
  by (simp add: set_data_def)

lemma bufs_set_size: "bufs (set_size w t n) = (bufs w)(t := (bufs w t)\<lparr>buf_size := n\<rparr>)"
  by (simp add: set_size_def)

lemma heap_set_data: "heap (set_data w t d) = heap w"
  by (simp add: set_data_def)

lemma heap_set_size: "heap (set_size w t n) = heap w"
  by (simp add: set_size_def)

lemma destroyed_set_data: "destroyed (set_data w t d) = destroyed w"
  by (simp add: set_data_def)

lemma destroyed_set_size: "destroyed (set_size w t n) = destroyed w"
  by (simp add: set_size_def)

lemmas world_set_simps =
  bufs_set_data bufs_set_size heap_set_data heap_set_size destroyed_set_data destroyed_set_size

text \<open>The two exchanges of a move, on any world.\<close>

lemma Buffer_move_bufs:
  "bufs (Buffer_move w t other) =
     (if t = other then bufs w
      else (bufs w)(other := \<lparr>buf_data = null_ptr, buf_size = 0\<rparr>, t := bufs w other))"
  by (rule ext) (simp add: Buffer_move_def Let_def world_set_simps)

lemma Buffer_move_heap: "heap (Buffer_move w t other) = heap w"
  by (simp add: Buffer_move_def Let_def world_set_simps)

lemma Buffer_move_destroyed: "destroyed (Buffer_move w t other) = destroyed w"
  by (simp add: Buffer_move_def Let_def world_set_simps)

lemma destroy_bufs: "destroy w t = Inr w' \<Longrightarrow> bufs w' = bufs w"
  by (auto simp: destroy_def split: sum.splits prod.splits)

lemma Buffer_move_assign_eq:
  "Buffer_move_assign w t other =
     (case destroy w t of Inl e \<Rightarrow> Inl e | Inr w0 \<Rightarrow> Inr (Buffer_move w0 t other))"
  by (simp add: Buffer_move_assign_def Buffer_move_def Let_def split: sum.splits)

lemma Buffer_move_assign_bufs:
  assumes "Buffer_move_assign w t other = Inr w'"
  shows "bufs w' =
     (if t = other then bufs w
      else (bufs w)(other := \<lparr>buf_data = null_ptr, buf_size = 0\<rparr>, t := bufs w other))"
proof -
  obtain w0 where d: "destroy w t = Inr w0" and m: "w' = Buffer_move w0 t other"
    using assms by (auto simp: Buffer_move_assign_eq split: sum.splits)
  show ?thesis using destroy_bufs [OF d] by (simp add: m Buffer_move_bufs)
qed

lemma destroy_n_ok:
  assumes "owns_storage w t"
  shows "\<exists>h1 ds. destroy_n (heap w) (buf_data (bufs w t)) (unat (buf_size (bufs w t))) = Inr (h1, ds)
           \<and> (buf_data (bufs w t) \<noteq> null_ptr \<longrightarrow> h1 (base (buf_data (bufs w t))) \<noteq> None)"
  using assms
  by (auto simp: owns_storage_def destroy_n_def Let_def split: if_splits option.splits)

lemma destroy_ok:
  assumes "owns_storage w t"
  shows "\<exists>w'. destroy w t = Inr w'"
proof -
  obtain h1 ds where
    d: "destroy_n (heap w) (buf_data (bufs w t)) (unat (buf_size (bufs w t))) = Inr (h1, ds)"
    and l: "buf_data (bufs w t) \<noteq> null_ptr \<longrightarrow> h1 (base (buf_data (bufs w t))) \<noteq> None"
    using destroy_n_ok [OF assms] by blast
  have o: "buf_data (bufs w t) \<noteq> null_ptr \<longrightarrow> off (buf_data (bufs w t)) = 0"
    using assms by (simp add: owns_storage_def Let_def)
  have "\<exists>h2. deallocate h1 (buf_data (bufs w t)) = Inr h2"
    using l o by (auto simp: deallocate_def)
  then show ?thesis using d by (auto simp: destroy_def)
qed

lemma destroy_frees:
  assumes "destroy w t = Inr w'" and "buf_data (bufs w t) \<noteq> null_ptr"
  shows "heap w' (base (buf_data (bufs w t))) = None"
  using assms
  by (auto simp: destroy_def deallocate_def split: sum.splits prod.splits if_splits)

lemma destroy_destroyed:
  assumes "destroy w t = Inr w'" and "heap w (base (buf_data (bufs w t))) = Some cells"
  shows "destroyed w' = destroyed w
            @ List.map_filter id (take (unat (buf_size (bufs w t))) (drop (off (buf_data (bufs w t))) cells))"
  using assms
  by (auto simp: destroy_def destroy_n_def map_filter_simps split: sum.splits prod.splits if_splits)

text \<open>
  A buffer assigned to itself is outside the contract: its storage is destroyed and freed,
  and the two exchanges hand its members back to it.
\<close>

lemma Buffer_self_move_assign_keeps_members:
  "Buffer_move_assign w t t = Inr w' \<Longrightarrow> bufs w' t = bufs w t"
  using Buffer_move_assign_bufs [of w t t w'] by simp

text \<open>
  C6. Moving a buffer, by construction or by assignment, into a different object leaves
  the source with \<^verbatim>\<open>size() == 0\<close> and \<^verbatim>\<open>data() == nullptr\<close> and gives the
  destination exactly the source's original size and data pointer. Move assignment first
  destroys the elements the destination held and frees its storage; it succeeds whenever
  the destination owns its storage.
\<close>

theorem Buffer_move_leaves_source_empty:
  "(this \<noteq> other \<longrightarrow>
        Buffer_size (bufs (Buffer_move w this other) other) = 0
      \<and> Buffer_data (bufs (Buffer_move w this other) other) = null_ptr
      \<and> Buffer_size (bufs (Buffer_move w this other) this) = Buffer_size (bufs w other)
      \<and> Buffer_data (bufs (Buffer_move w this other) this) = Buffer_data (bufs w other))
   \<and> (this \<noteq> other \<and> owns_storage w this \<longrightarrow>
        (\<exists>w'. Buffer_move_assign w this other = Inr w'))
   \<and> (this \<noteq> other \<and> Buffer_move_assign w this other = Inr w' \<longrightarrow>
        Buffer_size (bufs w' other) = 0
      \<and> Buffer_data (bufs w' other) = null_ptr
      \<and> Buffer_size (bufs w' this) = Buffer_size (bufs w other)
      \<and> Buffer_data (bufs w' this) = Buffer_data (bufs w other)
      \<and> (Buffer_data (bufs w this) \<noteq> null_ptr \<longrightarrow>
            heap w' (base (Buffer_data (bufs w this))) = None)
      \<and> (\<forall>cells. heap w (base (Buffer_data (bufs w this))) = Some cells \<longrightarrow>
            destroyed w' = destroyed w
              @ List.map_filter id
                  (take (unat (Buffer_size (bufs w this)))
                     (drop (off (Buffer_data (bufs w this))) cells))))"
proof -
  have mv: "this \<noteq> other \<longrightarrow>
        Buffer_size (bufs (Buffer_move w this other) other) = 0
      \<and> Buffer_data (bufs (Buffer_move w this other) other) = null_ptr
      \<and> Buffer_size (bufs (Buffer_move w this other) this) = Buffer_size (bufs w other)
      \<and> Buffer_data (bufs (Buffer_move w this other) this) = Buffer_data (bufs w other)"
    by (simp add: Buffer_move_bufs Buffer_size_def Buffer_data_def)
  have ok: "this \<noteq> other \<and> owns_storage w this \<longrightarrow>
        (\<exists>w'. Buffer_move_assign w this other = Inr w')"
    using destroy_ok [of w this] by (auto simp: Buffer_move_assign_eq)
  have asg: "Buffer_size (bufs w' other) = 0
      \<and> Buffer_data (bufs w' other) = null_ptr
      \<and> Buffer_size (bufs w' this) = Buffer_size (bufs w other)
      \<and> Buffer_data (bufs w' this) = Buffer_data (bufs w other)
      \<and> (Buffer_data (bufs w this) \<noteq> null_ptr \<longrightarrow>
            heap w' (base (Buffer_data (bufs w this))) = None)
      \<and> (\<forall>cells. heap w (base (Buffer_data (bufs w this))) = Some cells \<longrightarrow>
            destroyed w' = destroyed w
              @ List.map_filter id
                  (take (unat (Buffer_size (bufs w this)))
                     (drop (off (Buffer_data (bufs w this))) cells)))"
    if ne: "this \<noteq> other" and r: "Buffer_move_assign w this other = Inr w'"
  proof -
    obtain w0 where d: "destroy w this = Inr w0" and m: "w' = Buffer_move w0 this other"
      using r by (auto simp: Buffer_move_assign_eq split: sum.splits)
    have fields: "bufs w' other = \<lparr>buf_data = null_ptr, buf_size = 0\<rparr>" "bufs w' this = bufs w other"
      using Buffer_move_assign_bufs [OF r] ne by simp_all
    have freed: "Buffer_data (bufs w this) \<noteq> null_ptr \<longrightarrow>
            heap w' (base (Buffer_data (bufs w this))) = None"
      using destroy_frees [OF d] by (simp add: m Buffer_move_heap Buffer_data_def)
    have gone: "\<forall>cells. heap w (base (Buffer_data (bufs w this))) = Some cells \<longrightarrow>
            destroyed w' = destroyed w
              @ List.map_filter id
                  (take (unat (Buffer_size (bufs w this)))
                     (drop (off (Buffer_data (bufs w this))) cells))"
      using destroy_destroyed [OF d]
      by (simp add: m Buffer_move_destroyed Buffer_data_def Buffer_size_def)
    show ?thesis
      using fields freed gone by (simp add: Buffer_size_def Buffer_data_def)
  qed
  from mv ok asg show ?thesis by blast
qed

lemma example_world_owns: "owns_storage example_world 0"
  by (simp add: owns_storage_def example_world_def Let_def null_ptr_def nullptr_def)

theorem Buffer_move_leaves_source_empty_witness:
  "(0::nat) \<noteq> 1 \<and> (2::nat) \<noteq> 1 \<and> owns_storage example_world 0
   \<and> Buffer_size (bufs (Buffer_move example_world 2 1) 1) = 0
   \<and> Buffer_data (bufs (Buffer_move example_world 2 1) 1) = null_ptr
   \<and> Buffer_size (bufs (Buffer_move example_world 2 1) 2) = 2
   \<and> Buffer_data (bufs (Buffer_move example_world 2 1) 2) = \<lparr>base = 16, off = 0\<rparr>
   \<and> (case Buffer_move_assign example_world 0 1 of
         Inl e \<Rightarrow> False
       | Inr w' \<Rightarrow>
           Buffer_size (bufs w' 1) = 0 \<and> Buffer_data (bufs w' 1) = null_ptr
           \<and> Buffer_size (bufs w' 0) = 2 \<and> Buffer_data (bufs w' 0) = \<lparr>base = 16, off = 0\<rparr>
           \<and> heap w' 32 = None \<and> destroyed w' = [1])"
proof -
  have ow: "owns_storage example_world 0"
    by (rule example_world_owns)
  have src: "Buffer_size (bufs example_world 1) = 2"
    "Buffer_data (bufs example_world 1) = \<lparr>base = 16, off = 0\<rparr>"
    "Buffer_data (bufs example_world 0) = \<lparr>base = 32, off = 0\<rparr>"
    "Buffer_size (bufs example_world 0) = 1"
    "heap example_world 32 = Some [Some 1]"
    "destroyed example_world = []"
    by (simp_all add: example_world_def Buffer_size_def Buffer_data_def)
  have nn: "\<lparr>base = 32, off = 0\<rparr> \<noteq> null_ptr"
    by (simp add: null_ptr_def nullptr_def)
  have ctor: "Buffer_size (bufs (Buffer_move example_world 2 1) 1) = 0
   \<and> Buffer_data (bufs (Buffer_move example_world 2 1) 1) = null_ptr
   \<and> Buffer_size (bufs (Buffer_move example_world 2 1) 2) = 2
   \<and> Buffer_data (bufs (Buffer_move example_world 2 1) 2) = \<lparr>base = 16, off = 0\<rparr>"
    using Buffer_move_leaves_source_empty [of 2 1 example_world] src by simp
  obtain w' where r: "Buffer_move_assign example_world 0 1 = Inr w'"
    using Buffer_move_leaves_source_empty [of 0 1 example_world] ow by auto
  have "Buffer_size (bufs w' 1) = 0 \<and> Buffer_data (bufs w' 1) = null_ptr
           \<and> Buffer_size (bufs w' 0) = 2 \<and> Buffer_data (bufs w' 0) = \<lparr>base = 16, off = 0\<rparr>
           \<and> heap w' 32 = None \<and> destroyed w' = [1]"
    using Buffer_move_leaves_source_empty [of 0 1 example_world w'] r src nn
    by (simp add: map_filter_simps)
  then show ?thesis using ctor ow r by simp
qed

lemma allocate_nonnull:
  assumes "allocate sizeof_T h reply n = Inr (d, h1)" and "reply \<noteq> Some nullptr"
  shows "(n = 0) = (d = null_ptr)"
  using assms
  by (auto simp: allocate_def operator_new_def null_ptr_def split: if_splits option.splits)

lemma Buffer_sized_bufs:
  assumes "Buffer_sized sizeof_T init reply w t n = Inr w'"
  shows "\<exists>d h1. allocate sizeof_T (heap w) reply n = Inr (d, h1)
           \<and> bufs w' = (bufs w)(t := \<lparr>buf_data = d, buf_size = n\<rparr>)"
  using assms by (auto simp: Buffer_sized_def split: sum.splits prod.splits)

lemma Buffer_from_bufs:
  assumes "Buffer_from sizeof_T reply w t src n = Inr w'"
  shows "\<exists>d h1. allocate sizeof_T (heap w) reply n = Inr (d, h1)
           \<and> bufs w' = (bufs w)(t := \<lparr>buf_data = d, buf_size = n\<rparr>)"
  using assms by (auto simp: Buffer_from_def split: sum.splits prod.splits)

lemma exec_op_keeps_size_zero_iff_null:
  assumes inv: "\<forall>t. (buf_size (bufs w t) = 0) = (buf_data (bufs w t) = null_ptr)"
    and rep: "\<forall>r\<in>set (op_replies a). r \<noteq> Some nullptr"
    and ex: "exec_op sizeof_T init w a = Inr w'"
  shows "\<forall>t. (buf_size (bufs w' t) = 0) = (buf_data (bufs w' t) = null_ptr)"
proof (cases a)
  case (BDefault t)
  then show ?thesis using inv ex by (auto simp: Buffer_default_def Buffer_empty_def)
next
  case (BSized t n reply)
  then obtain d h1 where al: "allocate sizeof_T (heap w) reply n = Inr (d, h1)"
    and b: "bufs w' = (bufs w)(t := \<lparr>buf_data = d, buf_size = n\<rparr>)"
    using ex Buffer_sized_bufs [of sizeof_T init reply w t n w'] by auto
  have "reply \<noteq> Some nullptr" using rep BSized by simp
  then have "(n = 0) = (d = null_ptr)" using allocate_nonnull [OF al] by simp
  then show ?thesis using inv b by simp
next
  case (BFrom t src n reply)
  then obtain d h1 where al: "allocate sizeof_T (heap w) reply n = Inr (d, h1)"
    and b: "bufs w' = (bufs w)(t := \<lparr>buf_data = d, buf_size = n\<rparr>)"
    using ex Buffer_from_bufs [of sizeof_T reply w t src n w'] by auto
  have "reply \<noteq> Some nullptr" using rep BFrom by simp
  then have "(n = 0) = (d = null_ptr)" using allocate_nonnull [OF al] by simp
  then show ?thesis using inv b by simp
next
  case (BMove t other)
  then have "w' = Buffer_move w t other" using ex by simp
  then show ?thesis using inv by (simp add: Buffer_move_bufs)
next
  case (BMoveAssign t other)
  then have "Buffer_move_assign w t other = Inr w'" using ex by simp
  then show ?thesis using inv Buffer_move_assign_bufs [of w t other w'] by simp
qed

lemma run_ops_keeps_size_zero_iff_null:
  assumes "\<forall>t. (buf_size (bufs w t) = 0) = (buf_data (bufs w t) = null_ptr)"
    and "\<forall>r\<in>set (concat (map op_replies ops)). r \<noteq> Some nullptr"
    and "run_ops sizeof_T init w ops = Inr w'"
  shows "\<forall>t. (buf_size (bufs w' t) = 0) = (buf_data (bufs w' t) = null_ptr)"
  using assms
proof (induction ops arbitrary: w)
  case Nil
  then show ?case by simp
next
  case (Cons a ops)
  obtain w1 where s1: "exec_op sizeof_T init w a = Inr w1"
    and s2: "run_ops sizeof_T init w1 ops = Inr w'"
    using Cons.prems(3) by (auto split: sum.splits)
  have r1: "\<forall>r\<in>set (op_replies a). r \<noteq> Some nullptr" using Cons.prems(2) by simp
  have r2: "\<forall>r\<in>set (concat (map op_replies ops)). r \<noteq> Some nullptr"
    using Cons.prems(2) by simp
  have "\<forall>t. (buf_size (bufs w1 t) = 0) = (buf_data (bufs w1 t) = null_ptr)"
    using exec_op_keeps_size_zero_iff_null [OF Cons.prems(1) r1 s1] .
  then show ?case using Cons.IH [OF _ r2 s2] by blast
qed

lemma Buffer_sized_0:
  "Buffer_sized sizeof_T init reply w t 0 = Inr (Buffer_default w t)"
  by (simp add: Buffer_sized_def allocate_def uninitialized_default_construct_n_def
        write_n_def Buffer_default_def Buffer_empty_def)

lemma Buffer_from_0:
  "Buffer_from sizeof_T reply w t src 0 = Inr (Buffer_default w t)"
  by (simp add: Buffer_from_def allocate_def uninitialized_copy_n_def read_n_def
        write_n_def Buffer_default_def Buffer_empty_def)

text \<open>
  C7. In every state reached by default construction, \<^verbatim>\<open>Buffer(size)\<close>,
  \<^verbatim>\<open>Buffer(ptr, size)\<close>, move construction and move assignment, from a state in
  which it held, \<^verbatim>\<open>size() == 0\<close> holds of a buffer if and only if
  \<^verbatim>\<open>data() == nullptr\<close>, and the conversion to \<^verbatim>\<open>bool\<close> is true exactly when
  the data pointer is not null (equivalently, when the size is not 0). The runtime's
  \<^verbatim>\<open>operator new\<close> never answers with the null address. Constructing with size 0, by
  either constructor, gives the empty buffer and leaves the heap as it was, whatever the
  runtime would have answered.
\<close>

theorem Buffer_size_zero_iff_no_storage:
  "((\<forall>t. (Buffer_size (bufs w t) = 0) = (Buffer_data (bufs w t) = null_ptr))
      \<and> (\<forall>r\<in>set (concat (map op_replies ops)). r \<noteq> Some nullptr)
      \<and> run_ops sizeof_T init w ops = Inr w' \<longrightarrow>
        ((Buffer_size (bufs w' this) = 0) = (Buffer_data (bufs w' this) = null_ptr))
        \<and> (operator_bool (bufs w' this) = (Buffer_data (bufs w' this) \<noteq> null_ptr))
        \<and> (operator_bool (bufs w' this) = (Buffer_size (bufs w' this) \<noteq> 0)))
   \<and> Buffer_sized sizeof_T init reply w this 0 = Inr (Buffer_default w this)
   \<and> Buffer_from sizeof_T reply w this src 0 = Inr (Buffer_default w this)
   \<and> heap (Buffer_default w this) = heap w
   \<and> Buffer_size (bufs (Buffer_default w this) this) = 0
   \<and> Buffer_data (bufs (Buffer_default w this) this) = null_ptr
   \<and> \<not> operator_bool (bufs (Buffer_default w this) this)"
proof -
  have inv: "((Buffer_size (bufs w' this) = 0) = (Buffer_data (bufs w' this) = null_ptr))
        \<and> (operator_bool (bufs w' this) = (Buffer_data (bufs w' this) \<noteq> null_ptr))
        \<and> (operator_bool (bufs w' this) = (Buffer_size (bufs w' this) \<noteq> 0))"
    if a: "\<forall>t. (Buffer_size (bufs w t) = 0) = (Buffer_data (bufs w t) = null_ptr)"
      and b: "\<forall>r\<in>set (concat (map op_replies ops)). r \<noteq> Some nullptr"
      and c: "run_ops sizeof_T init w ops = Inr w'"
  proof -
    have a': "\<forall>t. (buf_size (bufs w t) = 0) = (buf_data (bufs w t) = null_ptr)"
      using a by (simp add: Buffer_size_def Buffer_data_def)
    have "\<forall>t. (buf_size (bufs w' t) = 0) = (buf_data (bufs w' t) = null_ptr)"
      using run_ops_keeps_size_zero_iff_null [OF a' b c] .
    then show ?thesis by (simp add: Buffer_size_def Buffer_data_def operator_bool_def)
  qed
  have dflt: "heap (Buffer_default w this) = heap w
   \<and> Buffer_size (bufs (Buffer_default w this) this) = 0
   \<and> Buffer_data (bufs (Buffer_default w this) this) = null_ptr
   \<and> \<not> operator_bool (bufs (Buffer_default w this) this)"
    by (simp add: Buffer_default_def Buffer_empty_def Buffer_size_def Buffer_data_def
          operator_bool_def)
  from inv dflt show ?thesis
    using Buffer_sized_0 [of sizeof_T init reply w this]
          Buffer_from_0 [of sizeof_T reply w this src]
    by blast
qed

lemmas Buffer_eval_defs =
  Buffer_sized_def Buffer_from_def Buffer_move_def Buffer_move_assign_def Buffer_default_def
  Buffer_empty_def allocate_def operator_new_def deallocate_def destroy_def destroy_n_def
  uninitialized_default_construct_n_def uninitialized_copy_n_def read_n_def write_n_def
  set_data_def set_size_def null_ptr_def nullptr_def Let_def map_filter_simps



lemma replicate_numeral_Cons: "replicate (numeral k) v = v # replicate (pred_numeral k) v"
  by (simp add: numeral_eq_Suc)

lemma example_ops_run:
  "\<exists>w'. run_ops 4 (Some (5::nat)) empty_world example_ops = Inr w'
      \<and> bufs w' 0 = Buffer_empty
      \<and> bufs w' 1 = \<lparr>buf_data = \<lparr>base = 16, off = 0\<rparr>, buf_size = 3\<rparr>
      \<and> bufs w' 2 = Buffer_empty
      \<and> heap w' 16 = Some [Some 5, Some 5, Some 5]
      \<and> heap w' 32 = None
      \<and> destroyed w' = [5, 5]"
  by (simp add: example_ops_def empty_world_def Buffer_eval_defs replicate_numeral_Cons)

theorem Buffer_size_zero_iff_no_storage_witness:
  "list_all (\<lambda>r. r \<noteq> Some nullptr) (concat (map op_replies example_ops))
   \<and> (case run_ops 4 (Some (5::nat)) empty_world example_ops of
         Inl e \<Rightarrow> False
       | Inr w' \<Rightarrow>
           Buffer_size (bufs w' 1) = 3 \<and> Buffer_data (bufs w' 1) \<noteq> null_ptr
           \<and> operator_bool (bufs w' 1)
           \<and> Buffer_data (bufs w' 0) = null_ptr \<and> Buffer_size (bufs w' 0) = 0
           \<and> \<not> operator_bool (bufs w' 0))"
proof -
  have start: "\<forall>t. (Buffer_size (bufs (empty_world :: nat world) t) = 0)
                  = (Buffer_data (bufs (empty_world :: nat world) t) = null_ptr)"
    by (simp add: empty_world_def Buffer_empty_def Buffer_size_def Buffer_data_def)
  have replies: "\<forall>r\<in>set (concat (map op_replies example_ops)). r \<noteq> Some nullptr"
    by (simp add: example_ops_def nullptr_def)
  obtain w' where r: "run_ops 4 (Some (5::nat)) empty_world example_ops = Inr w'"
    and b1: "bufs w' 1 = \<lparr>buf_data = \<lparr>base = 16, off = 0\<rparr>, buf_size = 3\<rparr>"
    and b0: "bufs w' 0 = Buffer_empty"
    using example_ops_run by blast
  have s1: "Buffer_size (bufs w' 1) = 3" and d0: "Buffer_data (bufs w' 0) = null_ptr"
    using b1 b0 by (simp_all add: Buffer_size_def Buffer_data_def Buffer_empty_def)
  have f1: "Buffer_data (bufs w' 1) \<noteq> null_ptr \<and> operator_bool (bufs w' 1)"
    using Buffer_size_zero_iff_no_storage
            [of empty_world example_ops 4 "Some 5" w' 1] start replies r s1
    by simp
  have f0: "Buffer_size (bufs w' 0) = 0 \<and> \<not> operator_bool (bufs w' 0)"
    using Buffer_size_zero_iff_no_storage
            [of empty_world example_ops 4 "Some 5" w' 0] start replies r d0
    by simp
  show ?thesis using replies r s1 d0 f1 f0 by (simp add: list_all_iff)
qed

lemma iterate_block:
  assumes h: "h b = Some (map Some xs)"
  shows "i \<le> length xs \<Longrightarrow>
         iterate h \<lparr>base = b, off = i\<rparr> \<lparr>base = b, off = length xs\<rparr> = Inr (drop i xs)"
proof (induction "length xs - i" arbitrary: i)
  case 0
  then have "i = length xs" by simp
  then show ?case by (subst iterate.simps) simp
next
  case (Suc k)
  then have lt: "i < length xs" by simp
  have d: "deref h \<lparr>base = b, off = i\<rparr> = Some (xs ! i)"
    using h lt by (simp add: deref_def)
  have ih: "iterate h \<lparr>base = b, off = Suc i\<rparr> \<lparr>base = b, off = length xs\<rparr> = Inr (drop (Suc i) xs)"
    using Suc.hyps(1) [of "Suc i"] Suc.hyps(2) lt by simp
  have "iterate h \<lparr>base = b, off = i\<rparr> \<lparr>base = b, off = length xs\<rparr> = Inr (xs ! i # drop (Suc i) xs)"
    using lt d ih by (subst iterate.simps) (simp add: ptr_add_def)
  then show ?case using lt by (simp add: Cons_nth_drop_Suc)
qed

lemma read_n_length: "read_n h p n = Some xs \<Longrightarrow> length xs = n"
  by (auto simp: read_n_def split: if_splits option.splits)

lemma read_n_live: "read_n h p n = Some xs \<Longrightarrow> n \<noteq> 0 \<Longrightarrow> h (base p) \<noteq> None"
  by (auto simp: read_n_def split: if_splits option.splits)

lemma read_n_other_block: "base p \<noteq> a \<Longrightarrow> read_n (h(a \<mapsto> cs)) p n = read_n h p n"
  by (simp add: read_n_def)

lemma allocate_block:
  assumes "sz \<noteq> 0" and "unat sz * unat sizeof_T < 2 ^ 64" and "sizeof_T \<noteq> 0"
  shows "allocate sizeof_T h (Some a) sz
           = Inr (\<lparr>base = a, off = 0\<rparr>, h(a \<mapsto> replicate (unat sz) None))"
proof -
  have m: "unat (sz * sizeof_T) = unat sz * unat sizeof_T"
    using assms(2) by (simp add: unat_mult_lem [THEN iffD1])
  have "unat sizeof_T \<noteq> 0" using assms(3) by (simp add: unat_eq_0)
  then have "unat (sz * sizeof_T) div unat sizeof_T = unat sz"
    by (simp add: m)
  then show ?thesis using assms(1) by (simp add: allocate_def operator_new_def)
qed


lemma write_n_fresh_block:
  assumes "h a = Some (replicate (length cs) None)"
  shows "write_n h \<lparr>base = a, off = 0\<rparr> cs = Inr (h(a \<mapsto> cs))"
proof (cases "cs = []")
  case True
  then have "h(a \<mapsto> cs) = h" using assms by (auto simp: fun_eq_iff)
  then show ?thesis using True by (simp add: write_n_def)
next
  case False
  then show ?thesis using assms by (simp add: write_n_def)
qed

text \<open>
  C8. Let \<open>src\<close> point to an array of \<open>n\<close> elements \<open>xs\<close> (of \<open>n * sizeof(T)\<close>
  bytes, a number that fits \<^verbatim>\<open>size_t\<close>), and let the allocation succeed. Then
  \<^verbatim>\<open>Buffer(src, n)\<close> returns a buffer with \<^verbatim>\<open>size() == n\<close>, the iteration from
  \<^verbatim>\<open>begin()\<close> to \<^verbatim>\<open>end()\<close> visits exactly \<open>xs\<close> in order, and element
  \<open>i\<close> of the buffer is \<open>xs ! i\<close> for every \<open>i < n\<close>.
\<close>

theorem Buffer_from_round_trip:
  assumes src: "read_n (heap w) src (unat n) = Some xs"
    and rep: "new_contract (heap w) reply" "n \<noteq> 0 \<longrightarrow> reply \<noteq> None"
    and fit: "unat n * unat sizeof_T < 2 ^ 64" "sizeof_T \<noteq> 0"
  shows "\<exists>w'. Buffer_from sizeof_T reply w this src n = Inr w'
           \<and> Buffer_size (bufs w' this) = n
           \<and> length xs = unat n
           \<and> iterate (heap w') (Buffer_begin (bufs w' this)) (Buffer_end (bufs w' this)) = Inr xs
           \<and> (\<forall>i. i < n \<longrightarrow> index (heap w') (bufs w' this) i = Inr (xs ! unat i))"
proof (cases "n = 0")
  case True
  have xs: "xs = []" using src True by (simp add: read_n_def)
  have r: "Buffer_from sizeof_T reply w this src n = Inr (Buffer_default w this)"
    using True Buffer_from_0 by simp
  have b: "bufs (Buffer_default w this) this = \<lparr>buf_data = null_ptr, buf_size = 0\<rparr>"
    by (simp add: Buffer_default_def Buffer_empty_def)
  have it: "iterate (heap (Buffer_default w this)) (Buffer_begin (bufs (Buffer_default w this) this))
              (Buffer_end (bufs (Buffer_default w this) this)) = Inr []"
    by (subst iterate.simps) (simp add: b Buffer_begin_def Buffer_end_def ptr_add_def null_ptr_def)
  show ?thesis
    using r xs it True by (simp add: b Buffer_size_def)
next
  case False
  then obtain a where reply: "reply = Some a" and a0: "a \<noteq> nullptr" and fresh: "heap w a = None"
    using rep by (auto simp: new_contract_def split: option.splits)
  have len: "length xs = unat n" using read_n_length [OF src] .
  have n0: "unat n \<noteq> 0" using False by (simp add: unat_eq_0)
  have live: "heap w (base src) \<noteq> None" using read_n_live [OF src n0] .
  then have ne: "base src \<noteq> a" using fresh by auto
  let ?h1 = "(heap w)(a \<mapsto> replicate (unat n) None)"
  let ?d = "\<lparr>base = a, off = 0\<rparr>"
  let ?h2 = "?h1(a \<mapsto> map Some xs)"
  let ?b = "\<lparr>buf_data = ?d, buf_size = n\<rparr>"
  let ?w' = "w\<lparr>heap := ?h2, bufs := (bufs w)(this := ?b)\<rparr>"
  have al: "allocate sizeof_T (heap w) reply n = Inr (?d, ?h1)"
    using allocate_block [OF False fit] by (simp add: reply)
  have rd: "read_n ?h1 src (unat n) = Some xs"
    using src ne by (simp add: read_n_other_block)
  have wr: "write_n ?h1 ?d (map Some xs) = Inr ?h2"
    by (rule write_n_fresh_block) (simp add: len)
  have r: "Buffer_from sizeof_T reply w this src n = Inr ?w'"
    by (simp add: Buffer_from_def al uninitialized_copy_n_def rd wr)
  have blk: "?h2 a = Some (map Some xs)" by simp
  have it: "iterate ?h2 ?d \<lparr>base = a, off = length xs\<rparr> = Inr xs"
    using iterate_block [of ?h2 a xs 0] blk by simp
  have ix: "index ?h2 ?b i = Inr (xs ! unat i)" if "i < n" for i
  proof -
    have "unat i < length xs" using that len by (simp add: word_less_nat_alt)
    then show ?thesis using that by (simp add: index_def deref_def ptr_add_def)
  qed
  show ?thesis
    using r it ix len
    by (simp add: Buffer_size_def Buffer_begin_def Buffer_end_def ptr_add_def)
qed

theorem Buffer_from_round_trip_witness:
  "read_n (heap example_world) \<lparr>base = 16, off = 0\<rparr> (unat (2 :: size_t)) = Some [7, 8]
   \<and> new_contract (heap example_world) (Some 48)
   \<and> unat (2 :: size_t) * unat (4 :: size_t) < 2 ^ 64
   \<and> (case Buffer_from 4 (Some 48) example_world 5 \<lparr>base = 16, off = 0\<rparr> 2 of
         Inl e \<Rightarrow> False
       | Inr w' \<Rightarrow>
           Buffer_size (bufs w' 5) = 2
           \<and> iterate (heap w') (Buffer_begin (bufs w' 5)) (Buffer_end (bufs w' 5)) = Inr [7, 8]
           \<and> index (heap w') (bufs w' 5) 0 = Inr 7
           \<and> index (heap w') (bufs w' 5) 1 = Inr 8)"
proof -
  have src: "read_n (heap example_world) \<lparr>base = 16, off = 0\<rparr> (unat (2 :: size_t)) = Some [7, 8]"
    by (simp add: example_world_def read_n_def)
  have rep: "new_contract (heap example_world) (Some 48)"
    "(2 :: size_t) \<noteq> 0 \<longrightarrow> Some (48 :: addr) \<noteq> None"
    by (simp_all add: example_world_def new_contract_def nullptr_def)
  have fit: "unat (2 :: size_t) * unat (4 :: size_t) < 2 ^ 64" "(4 :: size_t) \<noteq> 0"
    by simp_all
  obtain w' where r: "Buffer_from 4 (Some 48) example_world 5 \<lparr>base = 16, off = 0\<rparr> 2 = Inr w'"
    and sz: "Buffer_size (bufs w' 5) = 2"
    and it: "iterate (heap w') (Buffer_begin (bufs w' 5)) (Buffer_end (bufs w' 5)) = Inr [7, 8]"
    and ix: "\<forall>i. i < 2 \<longrightarrow> index (heap w') (bufs w' 5) i = Inr ([7, 8] ! unat i)"
    using Buffer_from_round_trip [OF src rep fit, of 5] by blast
  have i0: "index (heap w') (bufs w' 5) 0 = Inr 7"
    using ix [rule_format, of 0] by simp
  have i1: "index (heap w') (bufs w' 5) 1 = Inr 8"
    using ix [rule_format, of 1] by simp
  show ?thesis using src rep(1) fit(1) r sz it i0 i1 by simp
qed

text \<open>When the runtime has no memory, the constructor of a non-empty buffer fails with it.\<close>

lemma Buffer_from_bad_alloc:
  "n \<noteq> 0 \<Longrightarrow> Buffer_from sizeof_T None w t src n = Inl bad_alloc"
  by (simp add: Buffer_from_def allocate_def operator_new_def)

subsection \<open>Row cache with scroll reuse\<close>

lemma scroll_down:
  assumes "0 \<le> n" and "nat n \<le> length (cache_rows c)"
  shows "scroll n c =
     Some (c\<lparr>cache_rowsScratch := cache_rows c,
             marked := take (nat n) (cache_rows c),
             cache_rows := drop (nat n) (cache_rows c) @ take (nat n) (cache_rows c)\<rparr>)"
  using assms by (simp add: scroll_def Let_def)

lemma scroll_up:
  assumes "n < 0" and "nat (- n) \<le> length (cache_rows c)"
  shows "scroll n c =
     Some (c\<lparr>cache_rowsScratch := cache_rows c,
             marked := drop (length (cache_rows c) - nat (- n)) (cache_rows c),
             cache_rows := drop (length (cache_rows c) - nat (- n)) (cache_rows c)
                           @ take (length (cache_rows c) - nat (- n)) (cache_rows c)\<rparr>)"
proof -
  have "nat \<bar>n\<bar> = nat (- n)" using assms(1) by simp
  then show ?thesis using assms by (simp add: scroll_def Let_def)
qed


lemma rows_permutation_distinct:
  assumes "rows_permutation c"
  shows "distinct (cache_rows c) \<and> set (cache_rows c) = {..<length (cache_unorderedRows c)}"
proof -
  have m: "mset (cache_rows c) = mset [0..<length (cache_unorderedRows c)]"
    using assms by (simp add: rows_permutation_def)
  have "distinct (cache_rows c)"
    using m distinct_upt by (metis mset_eq_imp_distinct_iff)
  moreover have "set (cache_rows c) = set [0..<length (cache_unorderedRows c)]"
    using m by (rule mset_eq_setD)
  ultimately show ?thesis by (simp add: lessThan_atLeast0)
qed

lemma scroll_down_facts:
  assumes n: "0 \<le> n" and le: "nat n \<le> length old"
  shows "map ((!) (drop (nat n) old @ take (nat n) old)) (exposed n (length old)) = take (nat n) old"
    and "map ((!) old) (scrolled_out n (length old)) = take (nat n) old"
    and "\<forall>i. i < length old \<and> 0 \<le> int i + n \<and> int i + n < int (length old) \<longrightarrow>
           (drop (nat n) old @ take (nat n) old) ! i = old ! nat (int i + n)"
proof -
  show "map ((!) (drop (nat n) old @ take (nat n) old)) (exposed n (length old)) = take (nat n) old"
    using n le by (simp add: exposed_def list_eq_iff_nth_eq nth_append)
  show "map ((!) old) (scrolled_out n (length old)) = take (nat n) old"
    using n le by (simp add: scrolled_out_def list_eq_iff_nth_eq)
  show "\<forall>i. i < length old \<and> 0 \<le> int i + n \<and> int i + n < int (length old) \<longrightarrow>
           (drop (nat n) old @ take (nat n) old) ! i = old ! nat (int i + n)"
  proof (intro allI impI)
    fix i assume a: "i < length old \<and> 0 \<le> int i + n \<and> int i + n < int (length old)"
    then have "i < length old - nat n" using n by linarith
    moreover have "nat (int i + n) = nat n + i" using n by linarith
    ultimately show "(drop (nat n) old @ take (nat n) old) ! i = old ! nat (int i + n)"
      using le by (simp add: nth_append)
  qed
qed

lemma scroll_up_facts:
  assumes n: "n < 0" and le: "nat (- n) \<le> length old"
  shows "map ((!) (drop (length old - nat (- n)) old @ take (length old - nat (- n)) old))
           (exposed n (length old)) = drop (length old - nat (- n)) old"
    and "map ((!) old) (scrolled_out n (length old)) = drop (length old - nat (- n)) old"
    and "\<forall>i. i < length old \<and> 0 \<le> int i + n \<and> int i + n < int (length old) \<longrightarrow>
           (drop (length old - nat (- n)) old @ take (length old - nat (- n)) old) ! i
             = old ! nat (int i + n)"
proof -
  show "map ((!) (drop (length old - nat (- n)) old @ take (length old - nat (- n)) old))
           (exposed n (length old)) = drop (length old - nat (- n)) old"
    using n le by (simp add: exposed_def list_eq_iff_nth_eq nth_append)
  show "map ((!) old) (scrolled_out n (length old)) = drop (length old - nat (- n)) old"
    using n le by (simp add: scrolled_out_def list_eq_iff_nth_eq)
  show "\<forall>i. i < length old \<and> 0 \<le> int i + n \<and> int i + n < int (length old) \<longrightarrow>
           (drop (length old - nat (- n)) old @ take (length old - nat (- n)) old) ! i
             = old ! nat (int i + n)"
  proof (intro allI impI)
    fix i assume a: "i < length old \<and> 0 \<le> int i + n \<and> int i + n < int (length old)"
    then have ge: "nat (- n) \<le> i" using n by linarith
    have e: "nat (int i + n) = i - nat (- n)" using n a by linarith
    have lt: "i - nat (- n) < length old - nat (- n)" using a ge by linarith
    show "(drop (length old - nat (- n)) old @ take (length old - nat (- n)) old) ! i
             = old ! nat (int i + n)"
      using le ge lt by (simp add: nth_append e)
  qed
qed


lemma mset_drop_take: "mset (drop k xs @ take k xs) = mset xs"
proof -
  have "mset (drop k xs @ take k xs) = mset (drop k xs) + mset (take k xs)"
    by (rule mset_append)
  also have "\<dots> = mset (take k xs) + mset (drop k xs)"
    by (rule add.commute)
  also have "\<dots> = mset (take k xs @ drop k xs)"
    by (rule mset_append [symmetric])
  also have "\<dots> = mset xs"
    by (simp only: append_take_drop_id)
  finally show ?thesis .
qed

lemma rows_permutation_cong:
  assumes "mset (cache_rows c') = mset (cache_rows c)"
    and "cache_unorderedRows c' = cache_unorderedRows c"
  shows "rows_permutation c' = rows_permutation c"
  using assms by (simp add: rows_permutation_def)

lemma scroll_general:
  assumes le: "nat \<bar>n\<bar> \<le> length (cache_rows c)"
  shows "\<exists>c'. scroll n c = Some c'
     \<and> length (cache_rows c') = length (cache_rows c)
     \<and> (\<forall>i. i < length (cache_rows c) \<and> 0 \<le> int i + n \<and> int i + n < int (length (cache_rows c))
           \<longrightarrow> cache_rows c' ! i = cache_rows c ! nat (int i + n))
     \<and> map ((!) (cache_rows c')) (exposed n (length (cache_rows c)))
         = map ((!) (cache_rows c)) (scrolled_out n (length (cache_rows c)))
     \<and> marked c' = map ((!) (cache_rows c)) (scrolled_out n (length (cache_rows c)))
     \<and> length (marked c') = nat \<bar>n\<bar>
     \<and> cache_rowsScratch c' = cache_rows c
     \<and> cache_unorderedRows c' = cache_unorderedRows c
     \<and> mset (cache_rows c') = mset (cache_rows c)
     \<and> (rows_permutation c \<longrightarrow>
          rows_permutation c' \<and> distinct (cache_rows c')
          \<and> set (cache_rows c') = {..<length (cache_unorderedRows c')})"
proof (cases "0 \<le> n")
  case True
  let ?old = "cache_rows c"
  let ?c' = "c\<lparr>cache_rowsScratch := ?old, marked := take (nat n) ?old,
                cache_rows := drop (nat n) ?old @ take (nat n) ?old\<rparr>"
  have le': "nat n \<le> length ?old" using le True by simp
  have r: "scroll n c = Some ?c'" using scroll_down [OF True le'] .
  have ms: "mset (cache_rows ?c') = mset ?old"
    by (simp add: mset_drop_take del: mset_append)
  have perm: "rows_permutation c \<longrightarrow>
          rows_permutation ?c' \<and> distinct (cache_rows ?c')
          \<and> set (cache_rows ?c') = {..<length (cache_unorderedRows ?c')}"
    using rows_permutation_cong [OF ms, of ] rows_permutation_distinct [of ?c'] by simp
  have len: "length (take (nat n) ?old) = nat \<bar>n\<bar>" using True le' by simp
  show ?thesis
    using r ms perm len scroll_down_facts [OF True le'] by simp
next
  case False
  then have neg: "n < 0" by simp
  let ?old = "cache_rows c"
  let ?k = "length ?old - nat (- n)"
  let ?c' = "c\<lparr>cache_rowsScratch := ?old, marked := drop ?k ?old,
                cache_rows := drop ?k ?old @ take ?k ?old\<rparr>"
  have le': "nat (- n) \<le> length ?old" using le neg by simp
  have r: "scroll n c = Some ?c'" using scroll_up [OF neg le'] .
  have ms: "mset (cache_rows ?c') = mset ?old"
    by (simp add: mset_drop_take del: mset_append)
  have perm: "rows_permutation c \<longrightarrow>
          rows_permutation ?c' \<and> distinct (cache_rows ?c')
          \<and> set (cache_rows ?c') = {..<length (cache_unorderedRows ?c')}"
    using rows_permutation_cong [OF ms] rows_permutation_distinct [of ?c'] by simp
  have len: "length (drop ?k ?old) = nat \<bar>n\<bar>" using neg le' by simp
  show ?thesis
    using r ms perm len scroll_up_facts [OF neg le'] by simp
qed

lemma scroll_ABCD:
  "scroll 1 cache_ABCD =
     Some (cache_ABCD\<lparr>cache_rowsScratch := [0, 1, 2, 3], marked := [0], cache_rows := [1, 2, 3, 0]\<rparr>)"
  by (simp add: scroll_def cache_ABCD_def Let_def)


lemma rows_permutation_ABCD: "rows_permutation cache_ABCD"
  by (simp add: rows_permutation_def cache_ABCD_def upt_rec_numeral eval_nat_numeral)

text \<open>
  C5. A scroll by \<open>n\<close> rows, \<open>|n|\<close> at most the number of visible rows, copies the old
  row references shifted by \<open>n\<close> (the new position \<open>i\<close> shows what position
  \<open>i + n\<close> showed), fills the \<open>|n|\<close> newly exposed positions with the rows of the
  positions that scrolled out of view, marks exactly those rows for re-shaping, and swaps
  \<^verbatim>\<open>rows\<close> with \<^verbatim>\<open>rowsScratch\<close>, so that the scratch buffer holds the old order.
  The backing store is not touched, and \<^verbatim>\<open>rows\<close> stays a permutation of the slots,
  none referenced twice. The rows \<open>[A,B,C,D]\<close> in the slots 0 to 3, scrolled by \<open>+1\<close>,
  give the order \<open>[B,C,D,X]\<close> with \<open>X\<close> the recycled slot 0, and slot 0 alone is
  marked.
\<close>

theorem scroll_reuses_rows:
  "(nat \<bar>n\<bar> \<le> length (cache_rows c) \<longrightarrow>
     (\<exists>c'. scroll n c = Some c'
       \<and> length (cache_rows c') = length (cache_rows c)
       \<and> (\<forall>i. i < length (cache_rows c) \<and> 0 \<le> int i + n \<and> int i + n < int (length (cache_rows c))
             \<longrightarrow> cache_rows c' ! i = cache_rows c ! nat (int i + n))
       \<and> map ((!) (cache_rows c')) (exposed n (length (cache_rows c)))
           = map ((!) (cache_rows c)) (scrolled_out n (length (cache_rows c)))
       \<and> marked c' = map ((!) (cache_rows c)) (scrolled_out n (length (cache_rows c)))
       \<and> length (marked c') = nat \<bar>n\<bar>
       \<and> cache_rowsScratch c' = cache_rows c
       \<and> cache_unorderedRows c' = cache_unorderedRows c
       \<and> mset (cache_rows c') = mset (cache_rows c)
       \<and> (rows_permutation c \<longrightarrow>
            rows_permutation c' \<and> distinct (cache_rows c')
            \<and> set (cache_rows c') = {..<length (cache_unorderedRows c')})))
   \<and> rows_permutation cache_ABCD
   \<and> scroll 1 cache_ABCD =
       Some (cache_ABCD\<lparr>cache_rowsScratch := [0, 1, 2, 3], marked := [0],
                        cache_rows := [1, 2, 3, 0]\<rparr>)"
  using scroll_general [of n c] rows_permutation_ABCD scroll_ABCD by blast

theorem scroll_reuses_rows_witness:
  "nat \<bar>- 1 :: int\<bar> \<le> length (cache_rows cache_ABCD)
   \<and> rows_permutation cache_ABCD
   \<and> (case scroll (- 1) cache_ABCD of
         None \<Rightarrow> False
       | Some c' \<Rightarrow>
           cache_rows c' ! 1 = 0 \<and> cache_rows c' ! 2 = 1 \<and> cache_rows c' ! 3 = 2
           \<and> cache_rows c' ! 0 = 3
           \<and> marked c' = [3]
           \<and> cache_rowsScratch c' = [0, 1, 2, 3]
           \<and> cache_unorderedRows c' = cache_unorderedRows cache_ABCD
           \<and> rows_permutation c' \<and> distinct (cache_rows c'))"
proof -
  have h: "nat \<bar>- 1 :: int\<bar> \<le> length (cache_rows cache_ABCD)"
    by (simp add: cache_ABCD_def)
  have old: "cache_rows cache_ABCD = [0, 1, 2, 3]"
    by (simp add: cache_ABCD_def)
  have len: "length (cache_rows cache_ABCD) = 4"
    by (simp add: cache_ABCD_def)
  have pos: "exposed (- 1) 4 = [0]" "scrolled_out (- 1) 4 = [3]"
    by (simp_all add: exposed_def scrolled_out_def upt_rec_numeral)
  have p: "rows_permutation cache_ABCD"
    using scroll_reuses_rows [of 0 cache_ABCD] by blast
  obtain c' where r: "scroll (- 1) cache_ABCD = Some c'"
    and sh: "\<forall>i. i < length (cache_rows cache_ABCD) \<and> 0 \<le> int i + (- 1)
                  \<and> int i + (- 1) < int (length (cache_rows cache_ABCD))
             \<longrightarrow> cache_rows c' ! i = cache_rows cache_ABCD ! nat (int i + (- 1))"
    and ex: "map ((!) (cache_rows c')) (exposed (- 1) (length (cache_rows cache_ABCD)))
             = map ((!) (cache_rows cache_ABCD)) (scrolled_out (- 1) (length (cache_rows cache_ABCD)))"
    and mk: "marked c' = map ((!) (cache_rows cache_ABCD))
                           (scrolled_out (- 1) (length (cache_rows cache_ABCD)))"
    and sc: "cache_rowsScratch c' = cache_rows cache_ABCD"
    and un: "cache_unorderedRows c' = cache_unorderedRows cache_ABCD"
    and pm: "rows_permutation c' \<and> distinct (cache_rows c')"
    using scroll_reuses_rows [of "- 1" cache_ABCD] h p by blast
  have n1: "cache_rows c' ! 1 = 0" using sh [rule_format, of 1] by (simp add: old)
  have n2: "cache_rows c' ! 2 = 1" using sh [rule_format, of 2] by (simp add: old)
  have n3: "cache_rows c' ! 3 = 2" using sh [rule_format, of 3] by (simp add: old)
  have n0: "cache_rows c' ! 0 = 3" using ex unfolding len pos by (simp add: old)
  have m3: "marked c' = [3]" using mk unfolding len pos by (simp add: old)
  show ?thesis using h p r n0 n1 n2 n3 m3 sc un pm by (simp add: old)
qed

end
